theory Spec2Isabelle
  imports Main "HOL-Library.Sublist" "HOL-Library.List_Lexorder" "HOL-Library.AList"
begin

section \<open>Python strings and pathlib paths\<close>

text \<open>
  A Python \<open>str\<close> is a sequence of Unicode code points; \<open>bytes\<close> is a sequence of
  numbers below 256. The platform is POSIX throughout: the only path separator is \<open>/\<close>.
\<close>

type_synonym str = "nat list"
type_synonym bytes = "nat list"

abbreviation S :: "string \<Rightarrow> str" where
  "S s \<equiv> map of_char s"

abbreviation dot :: nat where "dot \<equiv> 46"
abbreviation slash :: nat where "slash \<equiv> 47"
abbreviation backslash :: nat where "backslash \<equiv> 92"
abbreviation dotdot :: str where "dotdot \<equiv> [46, 46]"

text \<open>\<open>str.isspace\<close> for one code point: the characters \<open>str.strip()\<close> removes.\<close>

definition isspace :: "nat \<Rightarrow> bool" where
  "isspace c =
     ((9 \<le> c \<and> c \<le> 13) \<or> (28 \<le> c \<and> c \<le> 32) \<or> c = 133 \<or> c = 160 \<or> c = 5760 \<or>
      (8192 \<le> c \<and> c \<le> 8202) \<or> c = 8232 \<or> c = 8233 \<or> c = 8239 \<or> c = 8287 \<or> c = 12288)"

definition lstrip :: "(nat \<Rightarrow> bool) \<Rightarrow> str \<Rightarrow> str" where
  "lstrip P s = dropWhile P s"

definition rstrip :: "(nat \<Rightarrow> bool) \<Rightarrow> str \<Rightarrow> str" where
  "rstrip P s = rev (dropWhile P (rev s))"

text \<open>\<open>s.strip()\<close> and \<open>s.lstrip(chars)\<close>.\<close>

definition strip :: "str \<Rightarrow> str" where
  "strip s = rstrip isspace (lstrip isspace s)"

definition lstrip_chars :: "nat list \<Rightarrow> str \<Rightarrow> str" where
  "lstrip_chars chars s = lstrip (\<lambda>c. c \<in> set chars) s"

text \<open>\<open>s.split(sep)\<close> for a one-character separator.\<close>

fun split_on :: "nat \<Rightarrow> str \<Rightarrow> str list" where
  "split_on sep [] = [[]]"
| "split_on sep (c # cs) =
     (if c = sep then [] # split_on sep cs
      else (case split_on sep cs of [] \<Rightarrow> [[c]] | w # ws \<Rightarrow> (c # w) # ws))"

text \<open>\<open>part.startswith('.')\<close>.\<close>

fun startswith_dot :: "str \<Rightarrow> bool" where
  "startswith_dot [] = False"
| "startswith_dot (c # cs) = (c = dot)"

fun startswith_sep :: "str \<Rightarrow> bool" where
  "startswith_sep [] = False"
| "startswith_sep (c # cs) = (c = slash)"

text \<open>
  An absolute \<open>pathlib.Path\<close> is the list of its parts after the root \<open>/\<close>. Parsing a
  string keeps \<open>..\<close> parts and drops empty and \<open>.\<close> parts, as \<open>pathlib\<close> does.
\<close>

type_synonym path = "str list"

definition parse_parts :: "str \<Rightarrow> path" where
  "parse_parts s = filter (\<lambda>x. x \<noteq> [] \<and> x \<noteq> [dot]) (split_on slash s)"

text \<open>\<open>base / s\<close>: a string with a leading separator replaces the base.\<close>

definition joinpath :: "path \<Rightarrow> str \<Rightarrow> path" where
  "joinpath base s = (if startswith_sep s then parse_parts s else base @ parse_parts s)"

text \<open>\<open>p.relative_to(base)\<close> raises \<open>ValueError\<close> (here \<open>None\<close>) unless \<open>base\<close> is a
  leading part of \<open>p\<close>; \<open>p.is_relative_to(base)\<close> is the test alone.\<close>

definition relative_to :: "path \<Rightarrow> path \<Rightarrow> path option" where
  "relative_to p base = (if prefix base p then Some (drop (length base) p) else None)"

definition is_relative_to :: "path \<Rightarrow> path \<Rightarrow> bool" where
  "is_relative_to p base = prefix base p"

text \<open>
  \<open>Path.resolve()\<close> is the operating system's canonicalisation. The security checks
  take it as a parameter, \<open>None\<close> standing for the \<open>OSError\<close> or \<open>ValueError\<close> it may
  raise. On a file system without symbolic links it is the lexical normal form
  \<open>realpath\<close>: every \<open>..\<close> part removes the part before it, and stays at the root.
\<close>

type_synonym resolver = "path \<Rightarrow> path option"

definition realpath_step :: "path \<Rightarrow> str \<Rightarrow> path" where
  "realpath_step acc s =
     (if s = dotdot then butlast acc else if s = [] \<or> s = [dot] then acc else acc @ [s])"

definition realpath :: resolver where
  "realpath p = Some (foldl realpath_step [] p)"

text \<open>\<open>Path.suffix\<close>: the last part from its last dot on, when that dot is neither the
  first nor the last character; and \<open>str(path)\<close> of a relative path.\<close>

definition path_name :: "path \<Rightarrow> str" where
  "path_name p = (if p = [] then [] else last p)"

definition path_suffix :: "path \<Rightarrow> str" where
  "path_suffix p =
     (let name = path_name p;
          after = length (takeWhile (\<lambda>c. c \<noteq> dot) (rev name))
      in if dot \<in> set name \<and> 0 < after \<and> Suc after < length name
         then drop (length name - Suc after) name else [])"

fun join_parts :: "path \<Rightarrow> str" where
  "join_parts [] = []"
| "join_parts [s] = s"
| "join_parts (s # t # ss) = s @ [slash] @ join_parts (t # ss)"

definition path_str :: "path \<Rightarrow> str" where
  "path_str p = (if p = [] then [dot] else join_parts p)"

section \<open>The Python runtime and the file system\<close>

text \<open>
  Three library functions are parameters of the model: \<open>str.lower\<close> (a Unicode table),
  \<open>hashlib.sha256(...).hexdigest()\<close> and \<open>mimetypes.guess_type\<close>.
\<close>

record runtime =
  lower :: "str \<Rightarrow> str"
  sha256_hexdigest :: "bytes \<Rightarrow> str"
  guess_type :: "path \<Rightarrow> str option"

datatype py_exception =
    FileNotFoundError | NotADirectoryError | FileExistsError | IsADirectoryError
  | LookupError | UnicodeEncodeError | UnicodeDecodeError | ValueError | PermissionError
  | ValidationError | OSError | IOError py_exception

subsection \<open>Codecs\<close>

text \<open>
  \<open>content.encode(encoding)\<close> and the decoding of a file opened in text mode. The
  encodings covered are UTF-8 and Latin-1; \<open>UnknownCodec\<close> is a name the codec registry
  does not know (\<open>LookupError\<close>).
\<close>

datatype codec = Utf8 | Latin1 | UnknownCodec

definition utf8_encode_cp :: "nat \<Rightarrow> bytes option" where
  "utf8_encode_cp c =
     (if c < 128 then Some [c]
      else if c < 2048 then Some [192 + c div 64, 128 + c mod 64]
      else if c < 65536 then
        (if 55296 \<le> c \<and> c \<le> 57343 then None
         else Some [224 + c div 4096, 128 + c div 64 mod 64, 128 + c mod 64])
      else if c < 1114112 then
        Some [240 + c div 262144, 128 + c div 4096 mod 64, 128 + c div 64 mod 64,
              128 + c mod 64]
      else None)"

fun utf8_encode :: "str \<Rightarrow> bytes option" where
  "utf8_encode [] = Some []"
| "utf8_encode (c # cs) =
     (case utf8_encode_cp c of
        None \<Rightarrow> None
      | Some b \<Rightarrow> (case utf8_encode cs of None \<Rightarrow> None | Some bs \<Rightarrow> Some (b @ bs)))"

definition is_continuation :: "nat \<Rightarrow> bool" where
  "is_continuation b = (128 \<le> b \<and> b < 192)"

fun utf8_decode :: "bytes \<Rightarrow> str option" where
  "utf8_decode [] = Some []"
| "utf8_decode (b0 # bs) =
     (if b0 < 128 then map_option (Cons b0) (utf8_decode bs)
      else if 194 \<le> b0 \<and> b0 < 224 then
        (case bs of
           b1 # r \<Rightarrow>
             if is_continuation b1
             then map_option (Cons ((b0 - 192) * 64 + (b1 - 128))) (utf8_decode r)
             else None
         | _ \<Rightarrow> None)
      else if 224 \<le> b0 \<and> b0 < 240 then
        (case bs of
           b1 # b2 # r \<Rightarrow>
             (let c = (b0 - 224) * 4096 + (b1 - 128) * 64 + (b2 - 128)
              in if is_continuation b1 \<and> is_continuation b2 \<and> 2048 \<le> c \<and>
                    \<not> (55296 \<le> c \<and> c \<le> 57343)
                 then map_option (Cons c) (utf8_decode r) else None)
         | _ \<Rightarrow> None)
      else if 240 \<le> b0 \<and> b0 < 245 then
        (case bs of
           b1 # b2 # b3 # r \<Rightarrow>
             (let c = (b0 - 240) * 262144 + (b1 - 128) * 4096 + (b2 - 128) * 64 + (b3 - 128)
              in if is_continuation b1 \<and> is_continuation b2 \<and> is_continuation b3 \<and>
                    65536 \<le> c \<and> c < 1114112
                 then map_option (Cons c) (utf8_decode r) else None)
         | _ \<Rightarrow> None)
      else None)"

definition encode :: "codec \<Rightarrow> str \<Rightarrow> py_exception + bytes" where
  "encode enc s =
     (case enc of
        Utf8 \<Rightarrow> (case utf8_encode s of None \<Rightarrow> Inl UnicodeEncodeError | Some b \<Rightarrow> Inr b)
      | Latin1 \<Rightarrow> (if list_all (\<lambda>c. c < 256) s then Inr s else Inl UnicodeEncodeError)
      | UnknownCodec \<Rightarrow> Inl LookupError)"

text \<open>Reading in text mode with the default \<open>newline=None\<close> turns \<open>\r\n\<close> and a lone
  \<open>\r\<close> into \<open>\n\<close>; writing leaves the text as it is on POSIX.\<close>

fun universal_newlines :: "str \<Rightarrow> str" where
  "universal_newlines [] = []"
| "universal_newlines [c] = (if c = 13 then [10] else [c])"
| "universal_newlines (c # d # cs) =
     (if c = 13 \<and> d = 10 then 10 # universal_newlines cs
      else if c = 13 then 10 # universal_newlines (d # cs)
      else c # universal_newlines (d # cs))"

subsection \<open>The file system\<close>

text \<open>
  The file system holds regular files and directories and no symbolic links, so
  \<open>Path.resolve()\<close> is \<open>realpath\<close>. It is an association list from absolute paths to
  nodes, in the order \<open>iterdir\<close> lists them; the root \<open>/\<close> is always a directory. The
  server process may read and change every node, so \<open>os.access\<close> succeeds exactly on the paths
  that exist.
\<close>

datatype node = File bytes | Dir

type_synonym filesystem = "(path \<times> node) list"

definition node_at :: "filesystem \<Rightarrow> path \<Rightarrow> node option" where
  "node_at fs p = (if p = [] then Some Dir else map_of fs p)"

text \<open>Path lookup as the kernel does it: every part before the last must be a
  directory.\<close>

fun walk :: "filesystem \<Rightarrow> path \<Rightarrow> path \<Rightarrow> py_exception + node" where
  "walk fs cur [] =
     (case node_at fs cur of None \<Rightarrow> Inl FileNotFoundError | Some n \<Rightarrow> Inr n)"
| "walk fs cur (s # ss) =
     (case node_at fs cur of
        None \<Rightarrow> Inl FileNotFoundError
      | Some (File b) \<Rightarrow> Inl NotADirectoryError
      | Some Dir \<Rightarrow> walk fs (cur @ [s]) ss)"

definition os_stat :: "filesystem \<Rightarrow> path \<Rightarrow> py_exception + node" where
  "os_stat fs p = walk fs [] p"

definition exists_path :: "filesystem \<Rightarrow> path \<Rightarrow> bool" where
  "exists_path fs p = (case os_stat fs p of Inl e \<Rightarrow> False | Inr n \<Rightarrow> True)"

definition is_file :: "filesystem \<Rightarrow> path \<Rightarrow> bool" where
  "is_file fs p = (case os_stat fs p of Inr (File b) \<Rightarrow> True | _ \<Rightarrow> False)"

definition is_dir :: "filesystem \<Rightarrow> path \<Rightarrow> bool" where
  "is_dir fs p = (case os_stat fs p of Inr Dir \<Rightarrow> True | _ \<Rightarrow> False)"

definition os_access :: "filesystem \<Rightarrow> path \<Rightarrow> bool" where
  "os_access fs p = exists_path fs p"

definition parent :: "path \<Rightarrow> path" where
  "parent p = butlast p"

definition os_mkdir :: "filesystem \<Rightarrow> path \<Rightarrow> py_exception + filesystem" where
  "os_mkdir fs p =
     (if p = [] then Inl FileExistsError
      else (case os_stat fs (parent p) of
              Inl e \<Rightarrow> Inl e
            | Inr (File b) \<Rightarrow> Inl NotADirectoryError
            | Inr Dir \<Rightarrow>
                (case node_at fs p of
                   Some n \<Rightarrow> Inl FileExistsError
                 | None \<Rightarrow> Inr (AList.update p Dir fs))))"

text \<open>
  \<open>Path.mkdir(parents, exist_ok)\<close>, as \<open>pathlib\<close> writes it: try \<open>os.mkdir\<close>; on
  \<open>FileNotFoundError\<close> with \<open>parents\<close>, make the parent (with \<open>parents=True,
  exist_ok=True\<close>) and try again without \<open>parents\<close>; on another \<open>OSError\<close>, swallow
  it only when \<open>exist_ok\<close> and the path is a directory. The file system comes back
  with the outcome, since directories made before a failure stay.
\<close>

function mkdir :: "filesystem \<Rightarrow> path \<Rightarrow> bool \<Rightarrow> bool \<Rightarrow> py_exception option \<times> filesystem" where
  "mkdir fs p parents exist_ok =
     (case os_mkdir fs p of
        Inr fs' \<Rightarrow> (None, fs')
      | Inl e \<Rightarrow>
          if e = FileNotFoundError then
            (if \<not> parents \<or> p = [] then (Some e, fs)
             else (case mkdir fs (parent p) True True of
                     (Some e', fs1) \<Rightarrow> (Some e', fs1)
                   | (None, fs1) \<Rightarrow> mkdir fs1 p False exist_ok))
          else if \<not> exist_ok \<or> \<not> is_dir fs p then (Some e, fs)
          else (None, fs))"
  by pat_completeness auto
termination
  by (relation "measure (\<lambda>(fs, p, parents, exist_ok). if parents then Suc (length p) else 0)")
     (auto simp: parent_def)


text \<open>\<open>open(p, 'w')\<close> followed by the write of the encoded text; \<open>open(p, 'rb')\<close>
  followed by reading everything; \<open>unlink\<close>; \<open>shutil.rmtree\<close>; \<open>iterdir\<close>.\<close>

definition write_bytes :: "filesystem \<Rightarrow> path \<Rightarrow> bytes \<Rightarrow> py_exception + filesystem" where
  "write_bytes fs p b =
     (if p = [] then Inl IsADirectoryError
      else (case os_stat fs (parent p) of
              Inl e \<Rightarrow> Inl e
            | Inr (File x) \<Rightarrow> Inl NotADirectoryError
            | Inr Dir \<Rightarrow>
                (case node_at fs p of
                   Some Dir \<Rightarrow> Inl IsADirectoryError
                 | _ \<Rightarrow> Inr (AList.update p (File b) fs))))"

definition read_bytes :: "filesystem \<Rightarrow> path \<Rightarrow> py_exception + bytes" where
  "read_bytes fs p =
     (case os_stat fs p of
        Inl e \<Rightarrow> Inl e
      | Inr Dir \<Rightarrow> Inl IsADirectoryError
      | Inr (File b) \<Rightarrow> Inr b)"

definition unlink :: "filesystem \<Rightarrow> path \<Rightarrow> filesystem" where
  "unlink fs p = AList.delete p fs"

definition rmtree :: "filesystem \<Rightarrow> path \<Rightarrow> filesystem" where
  "rmtree fs p = filter (\<lambda>(q, n). \<not> prefix p q) fs"

definition iterdir :: "filesystem \<Rightarrow> path \<Rightarrow> str list" where
  "iterdir fs d = remdups (map (\<lambda>(q, n). last q) (filter (\<lambda>(q, n). q \<noteq> [] \<and> butlast q = d) fs))"

section \<open>security.py: SecurityManager\<close>

text \<open>The state set up by \<open>SecurityManager.__init__\<close>: the resolved base directory,
  the resolved blocked paths, the lower-cased allowed extensions, and
  \<open>config.max_file_size\<close>.\<close>

record SecurityManager =
  base_dir :: path
  blocked_paths_set :: "path list"
  allowed_extensions_set :: "str list"
  max_file_size :: int

definition is_path_safe :: "resolver \<Rightarrow> SecurityManager \<Rightarrow> path \<Rightarrow> bool" where
  "is_path_safe resolve sm p =
     (case resolve p of
        None \<Rightarrow> False
      | Some normalized_path \<Rightarrow>
          (case relative_to normalized_path (base_dir sm) of
             None \<Rightarrow> False
           | Some relative_path \<Rightarrow>
               if dotdot \<in> set p then False
               else if list_ex (is_relative_to normalized_path) (blocked_paths_set sm) then False
               else if list_ex startswith_dot relative_path then False
               else True))"

definition get_safe_path :: "resolver \<Rightarrow> SecurityManager \<Rightarrow> str \<Rightarrow> path option" where
  "get_safe_path resolve sm relative_path =
     (let clean_path = lstrip_chars [slash, backslash] (strip relative_path);
          safe_path = joinpath (base_dir sm) clean_path
      in if is_path_safe resolve sm safe_path then Some safe_path else None)"

definition validate_file_extension :: "runtime \<Rightarrow> SecurityManager \<Rightarrow> path \<Rightarrow> bool" where
  "validate_file_extension rt sm file_path =
     (if allowed_extensions_set sm = [] then True
      else (let extension = lstrip_chars [dot] (lower rt (path_suffix file_path))
            in extension \<in> set (allowed_extensions_set sm)))"

definition validate_file_size :: "SecurityManager \<Rightarrow> int \<Rightarrow> bool" where
  "validate_file_size sm file_size = (0 \<le> file_size \<and> file_size \<le> max_file_size sm)"

definition calculate_checksum :: "runtime \<Rightarrow> str \<Rightarrow> py_exception + str" where
  "calculate_checksum rt content =
     (case encode Utf8 content of Inl e \<Rightarrow> Inl e | Inr b \<Rightarrow> Inr (sha256_hexdigest rt b))"

definition calculate_file_checksum :: "runtime \<Rightarrow> filesystem \<Rightarrow> path \<Rightarrow> str option" where
  "calculate_file_checksum rt fs file_path =
     (case read_bytes fs file_path of Inl e \<Rightarrow> None | Inr b \<Rightarrow> Some (sha256_hexdigest rt b))"

definition get_mime_type :: "runtime \<Rightarrow> path \<Rightarrow> str option" where
  "get_mime_type rt file_path = guess_type rt file_path"

definition can_read_file :: "SecurityManager \<Rightarrow> filesystem \<Rightarrow> path \<Rightarrow> bool" where
  "can_read_file sm fs file_path =
     (if \<not> is_path_safe realpath sm file_path then False
      else if \<not> exists_path fs file_path then False
      else if \<not> is_file fs file_path then False
      else os_access fs file_path)"

definition can_write_file :: "SecurityManager \<Rightarrow> filesystem \<Rightarrow> path \<Rightarrow> bool" where
  "can_write_file sm fs file_path =
     (if \<not> is_path_safe realpath sm file_path then False
      else if exists_path fs file_path then is_file fs file_path \<and> os_access fs file_path
      else exists_path fs (parent file_path) \<and> os_access fs (parent file_path))"

definition can_delete_file :: "SecurityManager \<Rightarrow> filesystem \<Rightarrow> path \<Rightarrow> bool" where
  "can_delete_file sm fs file_path =
     (if \<not> is_path_safe realpath sm file_path then False
      else if \<not> exists_path fs file_path then False
      else os_access fs (parent file_path))"

text \<open>The sandbox of the scenarios: root \<open>/data\<close>, the extension allow-list \<open>["txt"]\<close>.\<close>

definition data_sandbox :: SecurityManager where
  "data_sandbox =
     \<lparr>base_dir = [S ''data''], blocked_paths_set = [[S ''etc''], [S ''usr'', S ''bin'']],
      allowed_extensions_set = [S ''txt''], max_file_size = 1048576\<rparr>"

section \<open>models.py: requests and results\<close>

text \<open>
  Field names carry a prefix per class, since several classes share \<open>path\<close>,
  \<open>content\<close>, \<open>size\<close> and \<open>checksum\<close>. Time stamps are left out. The validator of a
  request's path refuses an empty path, a leading slash or backslash, and any two
  consecutive dots, and strips the rest.
\<close>

fun contains_dotdot :: "str \<Rightarrow> bool" where
  "contains_dotdot (c # d # cs) = ((c = dot \<and> d = dot) \<or> contains_dotdot (d # cs))"
| "contains_dotdot cs = False"

fun startswith_slash_or_backslash :: "str \<Rightarrow> bool" where
  "startswith_slash_or_backslash [] = False"
| "startswith_slash_or_backslash (c # cs) = (c = slash \<or> c = backslash)"

definition validate_path :: "str \<Rightarrow> py_exception + str" where
  "validate_path v =
     (if v = [] \<or> strip v = [] then Inl ValidationError
      else if startswith_slash_or_backslash v then Inl ValidationError
      else if contains_dotdot v then Inl ValidationError
      else Inr (strip v))"

record FileCreateRequest =
  fcr_path :: str
  fcr_content :: str
  fcr_overwrite :: bool
  fcr_encoding :: codec

record FileUpdateRequest =
  fur_content :: str
  fur_encoding :: codec
  fur_create_if_missing :: bool

record DirectoryCreateRequest =
  dcr_path :: str
  dcr_recursive :: bool

text \<open>
  The messages of the service, one constructor per message text of \<open>service.py\<close>:
  \<^item> \<open>UnsafePathMsg\<close>: "Nebezopasnyj put'" (unsafe path);
  \<^item> \<open>ForbiddenExtensionMsg\<close>: "Zapreshchennoe rasshirenie fajla: " and the suffix;
  \<^item> \<open>SizeExceededMsg\<close>: "Prevyshen maksimal'nyj razmer fajla: " and the limit;
  \<^item> \<open>FileExistsMsg\<close>: "Fajl uzhe sushchestvuet" (the file already exists);
  \<^item> \<open>FileNotFoundMsg\<close>: "Fajl ne najden" (file not found, on update);
  \<^item> \<open>NoDeleteRightsMsg\<close>: "Net prav na udalenie fajla" (no rights to delete the file);
  \<^item> \<open>NotFoundMsg\<close>: "Fajl ili direktoriya ne najdeny" (file or directory not found);
  \<^item> \<open>DirExistsMsg\<close>: "Direktoriya uzhe sushchestvuet" (the directory already exists);
  \<^item> \<open>CreateErrorMsg\<close>, \<open>UpdateErrorMsg\<close>, \<open>DeleteErrorMsg\<close>, \<open>CreateDirErrorMsg\<close>: the
    messages of the four \<open>except Exception\<close> handlers, "Oshibka sozdaniya fajla: ",
    "Oshibka obnovleniya fajla: ", "Oshibka udaleniya: " and "Oshibka sozdaniya
    direktorii: ", each followed by the text of the exception.
\<close>

datatype message =
    UnsafePathMsg
  | ForbiddenExtensionMsg str
  | SizeExceededMsg int
  | FileExistsMsg
  | FileNotFoundMsg
  | NoDeleteRightsMsg
  | NotFoundMsg
  | DirExistsMsg
  | CreateErrorMsg py_exception
  | UpdateErrorMsg py_exception
  | DeleteErrorMsg py_exception
  | CreateDirErrorMsg py_exception

datatype operation = Create | Update | Delete | CreateDirectory

text \<open>
  A \<open>FileOperationResult\<close> as the service builds it: the keyword arguments of each
  constructor call, \<open>message\<close> among them (the class in \<open>models.py\<close> declares no field of
  that name, and what the validation library does with the keyword is not part of
  these sources).
\<close>

record FileOperationResult =
  res_path :: str
  res_operation :: operation
  res_success :: bool
  res_size :: "int option"
  res_checksum :: "str option"
  res_message :: "message option"

definition failed :: "str \<Rightarrow> operation \<Rightarrow> message \<Rightarrow> FileOperationResult" where
  "failed p opn msg =
     \<lparr>res_path = p, res_operation = opn, res_success = False, res_size = None,
      res_checksum = None, res_message = Some msg\<rparr>"

definition succeeded :: "str \<Rightarrow> operation \<Rightarrow> int option \<Rightarrow> str option \<Rightarrow> FileOperationResult" where
  "succeeded p opn sz ck =
     \<lparr>res_path = p, res_operation = opn, res_success = True, res_size = sz,
      res_checksum = ck, res_message = None\<rparr>"

record FileInfo =
  fi_name :: str
  fi_path :: str
  fi_size :: int
  fi_is_readonly :: bool
  fi_is_directory :: bool
  fi_mime_type :: "str option"
  fi_checksum :: "str option"

record FileContent =
  fc_path :: str
  fc_content :: str
  fc_size :: int
  fc_mime_type :: "str option"
  fc_encoding :: codec
  fc_checksum :: "str option"

record FileListResponse =
  flr_path :: str
  flr_files :: "FileInfo list"
  flr_directories :: "FileInfo list"
  flr_total_count :: int

text \<open>The error taxonomy of the specification (section 7), and the kind each message
  of the service falls under.\<close>

datatype error_kind =
  UnsafePath | Forbidden | NotFound | AlreadyExists | ExtensionRejected | SizeExceeded | IoFailure

fun kind_of :: "message \<Rightarrow> error_kind" where
  "kind_of UnsafePathMsg = UnsafePath"
| "kind_of (ForbiddenExtensionMsg s) = ExtensionRejected"
| "kind_of (SizeExceededMsg n) = SizeExceeded"
| "kind_of FileExistsMsg = AlreadyExists"
| "kind_of FileNotFoundMsg = NotFound"
| "kind_of NoDeleteRightsMsg = Forbidden"
| "kind_of NotFoundMsg = NotFound"
| "kind_of DirExistsMsg = AlreadyExists"
| "kind_of (CreateErrorMsg e) = IoFailure"
| "kind_of (UpdateErrorMsg e) = IoFailure"
| "kind_of (DeleteErrorMsg e) = IoFailure"
| "kind_of (CreateDirErrorMsg e) = IoFailure"

section \<open>service.py: FileSystemService\<close>

definition create_file ::
  "runtime \<Rightarrow> SecurityManager \<Rightarrow> filesystem \<Rightarrow> FileCreateRequest \<Rightarrow> FileOperationResult \<times> filesystem" where
  "create_file rt sm fs request =
     (case get_safe_path realpath sm (fcr_path request) of
        None \<Rightarrow> (failed (fcr_path request) Create UnsafePathMsg, fs)
      | Some file_path \<Rightarrow>
          if \<not> validate_file_extension rt sm file_path
          then (failed (fcr_path request) Create (ForbiddenExtensionMsg (path_suffix file_path)), fs)
          else
            (case encode (fcr_encoding request) (fcr_content request) of
               Inl e \<Rightarrow> (failed (fcr_path request) Create (CreateErrorMsg e), fs)
             | Inr encoded \<Rightarrow>
                 (let content_size = int (length encoded) in
                  if \<not> validate_file_size sm content_size
                  then (failed (fcr_path request) Create (SizeExceededMsg (max_file_size sm)), fs)
                  else if exists_path fs file_path \<and> \<not> fcr_overwrite request
                  then (failed (fcr_path request) Create FileExistsMsg, fs)
                  else
                    (case mkdir fs (parent file_path) True True of
                       (Some e, fs1) \<Rightarrow> (failed (fcr_path request) Create (CreateErrorMsg e), fs1)
                     | (None, fs1) \<Rightarrow>
                         (case write_bytes fs1 file_path encoded of
                            Inl e \<Rightarrow> (failed (fcr_path request) Create (CreateErrorMsg e), fs1)
                          | Inr fs2 \<Rightarrow>
                              (case calculate_checksum rt (fcr_content request) of
                                 Inl e \<Rightarrow> (failed (fcr_path request) Create (CreateErrorMsg e), fs2)
                               | Inr checksum \<Rightarrow>
                                   (case relative_to file_path (base_dir sm) of
                                      None \<Rightarrow>
                                        (failed (fcr_path request) Create (CreateErrorMsg ValueError), fs2)
                                    | Some rel \<Rightarrow>
                                        (succeeded (path_str rel) Create (Some content_size)
                                           (Some checksum), fs2))))))))"

text \<open>\<open>f.read()\<close> on a file opened with \<open>'r', encoding='utf-8'\<close>.\<close>

definition read_text :: "filesystem \<Rightarrow> path \<Rightarrow> py_exception + str" where
  "read_text fs p =
     (case read_bytes fs p of
        Inl e \<Rightarrow> Inl e
      | Inr b \<Rightarrow>
          (case utf8_decode b of
             None \<Rightarrow> Inl UnicodeDecodeError
           | Some s \<Rightarrow> Inr (universal_newlines s)))"

definition read_file ::
  "runtime \<Rightarrow> SecurityManager \<Rightarrow> filesystem \<Rightarrow> str \<Rightarrow> py_exception + FileContent" where
  "read_file rt sm fs relative_path =
     (case get_safe_path realpath sm relative_path of
        None \<Rightarrow> Inl ValueError
      | Some file_path \<Rightarrow>
          if \<not> can_read_file sm fs file_path then Inl PermissionError
          else
            (case read_text fs file_path of
               Inl e \<Rightarrow> Inl (IOError e)
             | Inr content \<Rightarrow>
                 (case encode Utf8 content of
                    Inl e \<Rightarrow> Inl (IOError e)
                  | Inr encoded \<Rightarrow>
                      (let file_size = int (length encoded) in
                       if \<not> validate_file_size sm file_size then Inl (IOError ValueError)
                       else
                         (case calculate_checksum rt content of
                            Inl e \<Rightarrow> Inl (IOError e)
                          | Inr checksum \<Rightarrow>
                              (case relative_to file_path (base_dir sm) of
                                 None \<Rightarrow> Inl (IOError ValueError)
                               | Some rel \<Rightarrow>
                                   Inr \<lparr>fc_path = path_str rel, fc_content = content,
                                        fc_size = file_size,
                                        fc_mime_type = get_mime_type rt file_path,
                                        fc_encoding = Utf8, fc_checksum = Some checksum\<rparr>))))))"

definition update_file ::
  "runtime \<Rightarrow> SecurityManager \<Rightarrow> filesystem \<Rightarrow> str \<Rightarrow> FileUpdateRequest \<Rightarrow> FileOperationResult \<times> filesystem" where
  "update_file rt sm fs relative_path request =
     (case get_safe_path realpath sm relative_path of
        None \<Rightarrow> (failed relative_path Update UnsafePathMsg, fs)
      | Some file_path \<Rightarrow>
          if \<not> validate_file_extension rt sm file_path
          then (failed relative_path Update (ForbiddenExtensionMsg (path_suffix file_path)), fs)
          else if \<not> exists_path fs file_path \<and> \<not> fur_create_if_missing request
          then (failed relative_path Update FileNotFoundMsg, fs)
          else
            (case (if \<not> exists_path fs file_path then mkdir fs (parent file_path) True True
                   else (None, fs)) of
               (Some e, fs1) \<Rightarrow> (failed relative_path Update (UpdateErrorMsg e), fs1)
             | (None, fs1) \<Rightarrow>
                 (case encode (fur_encoding request) (fur_content request) of
                    Inl e \<Rightarrow> (failed relative_path Update (UpdateErrorMsg e), fs1)
                  | Inr encoded \<Rightarrow>
                      (let content_size = int (length encoded) in
                       if \<not> validate_file_size sm content_size
                       then (failed relative_path Update (SizeExceededMsg (max_file_size sm)), fs1)
                       else
                         (case write_bytes fs1 file_path encoded of
                            Inl e \<Rightarrow> (failed relative_path Update (UpdateErrorMsg e), fs1)
                          | Inr fs2 \<Rightarrow>
                              (case calculate_checksum rt (fur_content request) of
                                 Inl e \<Rightarrow> (failed relative_path Update (UpdateErrorMsg e), fs2)
                               | Inr checksum \<Rightarrow>
                                   (case relative_to file_path (base_dir sm) of
                                      None \<Rightarrow>
                                        (failed relative_path Update (UpdateErrorMsg ValueError), fs2)
                                    | Some rel \<Rightarrow>
                                        (succeeded (path_str rel) Update (Some content_size)
                                           (Some checksum), fs2))))))))"

definition delete_file ::
  "SecurityManager \<Rightarrow> filesystem \<Rightarrow> str \<Rightarrow> FileOperationResult \<times> filesystem" where
  "delete_file sm fs relative_path =
     (case get_safe_path realpath sm relative_path of
        None \<Rightarrow> (failed relative_path Delete UnsafePathMsg, fs)
      | Some file_path \<Rightarrow>
          if \<not> can_delete_file sm fs file_path
          then (failed relative_path Delete NoDeleteRightsMsg, fs)
          else if is_file fs file_path \<or> is_dir fs file_path then
            (let fs1 = (if is_file fs file_path then unlink fs file_path
                        else rmtree fs file_path)
             in case relative_to file_path (base_dir sm) of
                  None \<Rightarrow> (failed relative_path Delete (DeleteErrorMsg ValueError), fs1)
                | Some rel \<Rightarrow> (succeeded (path_str rel) Delete None None, fs1))
          else (failed relative_path Delete NotFoundMsg, fs))"

text \<open>The loop of \<open>list_directory\<close> over the names \<open>iterdir\<close> gives.\<close>

definition node_size :: "node \<Rightarrow> int" where
  "node_size n = (case n of File b \<Rightarrow> int (length b) | Dir \<Rightarrow> 0)"

fun list_items ::
  "runtime \<Rightarrow> SecurityManager \<Rightarrow> filesystem \<Rightarrow> path \<Rightarrow> str list \<Rightarrow> FileInfo list \<times> FileInfo list
     \<Rightarrow> py_exception + FileInfo list \<times> FileInfo list" where
  "list_items rt sm fs dir_path [] (files, directories) = Inr (files, directories)"
| "list_items rt sm fs dir_path (name # rest) (files, directories) =
     (if startswith_dot name then list_items rt sm fs dir_path rest (files, directories)
      else
        (let item = dir_path @ [name] in
         case relative_to item (base_dir sm) of
           None \<Rightarrow> Inl ValueError
         | Some relative_item_path \<Rightarrow>
             (case os_stat fs item of
                Inl e \<Rightarrow> Inl e
              | Inr stat \<Rightarrow>
                  (let is_directory = is_dir fs item;
                       file_info =
                         \<lparr>fi_name = name, fi_path = path_str relative_item_path,
                          fi_size = (if is_directory then 0 else node_size stat),
                          fi_is_readonly = \<not> os_access fs item,
                          fi_is_directory = is_directory,
                          fi_mime_type = (if is_directory then None else get_mime_type rt item),
                          fi_checksum =
                            (if is_directory then None else calculate_file_checksum rt fs item)\<rparr>
                   in if is_directory
                      then list_items rt sm fs dir_path rest (files, directories @ [file_info])
                      else list_items rt sm fs dir_path rest (files @ [file_info], directories)))))"

definition list_directory ::
  "runtime \<Rightarrow> SecurityManager \<Rightarrow> filesystem \<Rightarrow> str \<Rightarrow> py_exception + FileListResponse" where
  "list_directory rt sm fs relative_path =
     (case get_safe_path realpath sm (if relative_path = [] then [dot] else relative_path) of
        None \<Rightarrow> Inl ValueError
      | Some dir_path \<Rightarrow>
          if \<not> exists_path fs dir_path then Inl FileNotFoundError
          else if \<not> is_dir fs dir_path then Inl ValueError
          else
            (case list_items rt sm fs dir_path (iterdir fs dir_path) ([], []) of
               Inl e \<Rightarrow> Inl (IOError e)
             | Inr (unsorted_files, unsorted_directories) \<Rightarrow>
                 (let files = sort_key (\<lambda>x. lower rt (fi_name x)) unsorted_files;
                      directories = sort_key (\<lambda>x. lower rt (fi_name x)) unsorted_directories
                  in case relative_to dir_path (base_dir sm) of
                       None \<Rightarrow> Inl (IOError ValueError)
                     | Some rel \<Rightarrow>
                         Inr \<lparr>flr_path = path_str rel, flr_files = files,
                              flr_directories = directories,
                              flr_total_count = int (length files) + int (length directories)\<rparr>)))"

definition create_directory ::
  "SecurityManager \<Rightarrow> filesystem \<Rightarrow> DirectoryCreateRequest \<Rightarrow> FileOperationResult \<times> filesystem" where
  "create_directory sm fs request =
     (case get_safe_path realpath sm (dcr_path request) of
        None \<Rightarrow> (failed (dcr_path request) CreateDirectory UnsafePathMsg, fs)
      | Some dir_path \<Rightarrow>
          (case mkdir fs dir_path (dcr_recursive request) False of
             (Some e, fs1) \<Rightarrow>
               if e = FileExistsError
               then (failed (dcr_path request) CreateDirectory DirExistsMsg, fs1)
               else (failed (dcr_path request) CreateDirectory (CreateDirErrorMsg e), fs1)
           | (None, fs1) \<Rightarrow>
               (case relative_to dir_path (base_dir sm) of
                  None \<Rightarrow>
                    (failed (dcr_path request) CreateDirectory (CreateDirErrorMsg ValueError), fs1)
                | Some rel \<Rightarrow> (succeeded (path_str rel) CreateDirectory None None, fs1))))"

subsection \<open>The file watcher\<close>

text \<open>An event of the watching library, and the \<open>WatchEvent\<close> the handlers hand to
  \<open>_notify_watch_event\<close>, which puts it on the queue of every subscriber.\<close>

record FileSystemEvent =
  src_path :: str
  dest_path :: str
  is_directory :: bool

datatype event_type = Created | Modified | Deleted | Moved

record WatchEvent =
  we_event_type :: event_type
  we_path :: str
  we_is_directory :: bool
  we_old_path :: "str option"
  we_file_size :: "int option"

definition should_process_event :: "resolver \<Rightarrow> path \<Rightarrow> FileSystemEvent \<Rightarrow> bool option" where
  "should_process_event resolve handler_base_dir event =
     (case resolve (parse_parts (src_path event)) of
        None \<Rightarrow> None
      | Some p \<Rightarrow>
          (case relative_to p handler_base_dir of
             None \<Rightarrow> Some False
           | Some rel \<Rightarrow> Some (\<not> list_ex startswith_dot p)))"

definition getsize :: "filesystem \<Rightarrow> str \<Rightarrow> int option" where
  "getsize fs s =
     (case os_stat fs (parse_parts s) of Inl e \<Rightarrow> None | Inr n \<Rightarrow> Some (node_size n))"

text \<open>The four handlers: the event each hands to \<open>_notify_watch_event\<close>, if any;
  \<open>Inl\<close> when \<open>resolve\<close> raised inside \<open>_should_process_event\<close>.\<close>

definition on_created ::
  "resolver \<Rightarrow> path \<Rightarrow> FileSystemEvent \<Rightarrow> py_exception + WatchEvent option" where
  "on_created resolve handler_base_dir event =
     (case should_process_event resolve handler_base_dir event of
        None \<Rightarrow> Inl OSError
      | Some ok \<Rightarrow>
          Inr (if ok
               then Some \<lparr>we_event_type = Created, we_path = src_path event,
                          we_is_directory = is_directory event, we_old_path = None,
                          we_file_size = None\<rparr>
               else None))"

definition on_modified ::
  "resolver \<Rightarrow> path \<Rightarrow> filesystem \<Rightarrow> FileSystemEvent \<Rightarrow> py_exception + WatchEvent option" where
  "on_modified resolve handler_base_dir fs event =
     (case should_process_event resolve handler_base_dir event of
        None \<Rightarrow> Inl OSError
      | Some ok \<Rightarrow>
          Inr (if ok \<and> \<not> is_directory event
               then Some \<lparr>we_event_type = Modified, we_path = src_path event,
                          we_is_directory = False, we_old_path = None,
                          we_file_size = getsize fs (src_path event)\<rparr>
               else None))"

definition on_deleted ::
  "resolver \<Rightarrow> path \<Rightarrow> FileSystemEvent \<Rightarrow> py_exception + WatchEvent option" where
  "on_deleted resolve handler_base_dir event =
     (case should_process_event resolve handler_base_dir event of
        None \<Rightarrow> Inl OSError
      | Some ok \<Rightarrow>
          Inr (if ok
               then Some \<lparr>we_event_type = Deleted, we_path = src_path event,
                          we_is_directory = is_directory event, we_old_path = None,
                          we_file_size = None\<rparr>
               else None))"

definition on_moved ::
  "resolver \<Rightarrow> path \<Rightarrow> FileSystemEvent \<Rightarrow> py_exception + WatchEvent option" where
  "on_moved resolve handler_base_dir event =
     (case should_process_event resolve handler_base_dir event of
        None \<Rightarrow> Inl OSError
      | Some ok \<Rightarrow>
          Inr (if ok
               then Some \<lparr>we_event_type = Moved, we_path = dest_path event,
                          we_is_directory = is_directory event,
                          we_old_path = Some (src_path event), we_file_size = None\<rparr>
               else None))"

definition notify_watch_event :: "WatchEvent list list \<Rightarrow> WatchEvent \<Rightarrow> WatchEvent list list" where
  "notify_watch_event watch_subscribers event = map (\<lambda>queue. queue @ [event]) watch_subscribers"

text \<open>The observer calls the handler of the event's kind; the queues of the subscribers
  after it.\<close>

definition dispatch ::
  "resolver \<Rightarrow> path \<Rightarrow> filesystem \<Rightarrow> WatchEvent list list \<Rightarrow> event_type \<Rightarrow> FileSystemEvent
     \<Rightarrow> WatchEvent list list" where
  "dispatch resolve handler_base_dir fs watch_subscribers kind event =
     (case (case kind of
              Created \<Rightarrow> on_created resolve handler_base_dir event
            | Modified \<Rightarrow> on_modified resolve handler_base_dir fs event
            | Deleted \<Rightarrow> on_deleted resolve handler_base_dir event
            | Moved \<Rightarrow> on_moved resolve handler_base_dir event) of
        Inr (Some watch_event) \<Rightarrow> notify_watch_event watch_subscribers watch_event
      | _ \<Rightarrow> watch_subscribers)"

section \<open>api.py: batch operations\<close>

text \<open>
  An operation of a batch is a dictionary with the keys \<open>type\<close>, \<open>path\<close> and \<open>data\<close>;
  \<open>data\<close> holds the keyword arguments of the request class, each present or absent
  (a value of the wrong type is not covered). Building a request from it raises
  \<open>ValidationError\<close> when a required field is missing or the path is refused.
\<close>

record request_data =
  d_path :: "str option"
  d_content :: "str option"
  d_overwrite :: "bool option"
  d_encoding :: "codec option"
  d_create_if_missing :: "bool option"
  d_recursive :: "bool option"

record batch_operation =
  op_type :: "str option"
  op_path :: str
  op_data :: request_data

definition or_default :: "'a option \<Rightarrow> 'a \<Rightarrow> 'a" where
  "or_default v d = (case v of None \<Rightarrow> d | Some x \<Rightarrow> x)"

definition make_FileCreateRequest :: "request_data \<Rightarrow> py_exception + FileCreateRequest" where
  "make_FileCreateRequest d =
     (case d_path d of
        None \<Rightarrow> Inl ValidationError
      | Some v \<Rightarrow>
          (case validate_path v of
             Inl e \<Rightarrow> Inl e
           | Inr p \<Rightarrow>
               Inr \<lparr>fcr_path = p, fcr_content = or_default (d_content d) [],
                    fcr_overwrite = or_default (d_overwrite d) False,
                    fcr_encoding = or_default (d_encoding d) Utf8\<rparr>))"

definition make_FileUpdateRequest :: "request_data \<Rightarrow> py_exception + FileUpdateRequest" where
  "make_FileUpdateRequest d =
     (case d_content d of
        None \<Rightarrow> Inl ValidationError
      | Some c \<Rightarrow>
          Inr \<lparr>fur_content = c, fur_encoding = or_default (d_encoding d) Utf8,
               fur_create_if_missing = or_default (d_create_if_missing d) False\<rparr>)"

definition make_DirectoryCreateRequest :: "request_data \<Rightarrow> py_exception + DirectoryCreateRequest" where
  "make_DirectoryCreateRequest d =
     (case d_path d of
        None \<Rightarrow> Inl ValidationError
      | Some v \<Rightarrow>
          (case validate_path v of
             Inl e \<Rightarrow> Inl e
           | Inr p \<Rightarrow> Inr \<lparr>dcr_path = p, dcr_recursive = or_default (d_recursive d) True\<rparr>))"

text \<open>The body of the \<open>try\<close> up to the assignment of \<open>result\<close>: the service call the
  type selects, or the exception raised on the way.\<close>

definition run_operation ::
  "runtime \<Rightarrow> SecurityManager \<Rightarrow> filesystem \<Rightarrow> batch_operation
     \<Rightarrow> (py_exception + FileOperationResult) \<times> filesystem" where
  "run_operation rt sm fs operation =
     (if op_type operation = Some (S ''create_file'') then
        (case make_FileCreateRequest (op_data operation) of
           Inl e \<Rightarrow> (Inl e, fs)
         | Inr create_request \<Rightarrow>
             (case create_file rt sm fs create_request of (result, fs1) \<Rightarrow> (Inr result, fs1)))
      else if op_type operation = Some (S ''update_file'') then
        (case make_FileUpdateRequest (op_data operation) of
           Inl e \<Rightarrow> (Inl e, fs)
         | Inr update_request \<Rightarrow>
             (case update_file rt sm fs (op_path operation) update_request of
                (result, fs1) \<Rightarrow> (Inr result, fs1)))
      else if op_type operation = Some (S ''delete'') then
        (case delete_file sm fs (op_path operation) of (result, fs1) \<Rightarrow> (Inr result, fs1))
      else if op_type operation = Some (S ''create_directory'') then
        (case make_DirectoryCreateRequest (op_data operation) of
           Inl e \<Rightarrow> (Inl e, fs)
         | Inr dir_request \<Rightarrow>
             (case create_directory sm fs dir_request of (result, fs1) \<Rightarrow> (Inr result, fs1)))
      else (Inl ValueError, fs))"

text \<open>The texts of a batch response: a message of the service, the text of an
  exception, or the literal "Unknown error".\<close>

datatype batch_text = ServiceText message | ExceptionText py_exception | UnknownError | NoText

record result_entry =
  re_path :: str
  re_type :: "str option"
  re_success :: bool
  re_message :: batch_text

record error_entry =
  ee_path :: str
  ee_type :: "str option"
  ee_error :: batch_text

text \<open>The \<open>for\<close> loop of \<open>batch_operations\<close>, with its three accumulators; \<open>break\<close>
  returns them as they are.\<close>

fun batch_loop ::
  "runtime \<Rightarrow> SecurityManager \<Rightarrow> bool \<Rightarrow> filesystem \<Rightarrow> batch_operation list
     \<Rightarrow> result_entry list \<times> error_entry list \<times> int
     \<Rightarrow> (result_entry list \<times> error_entry list \<times> int) \<times> filesystem" where
  "batch_loop rt sm cont fs [] acc = (acc, fs)"
| "batch_loop rt sm cont fs (operation # rest) (results, errors, successful) =
     (case run_operation rt sm fs operation of
        (Inr result, fs1) \<Rightarrow>
          (let results1 = results @
                 [\<lparr>re_path = op_path operation, re_type = op_type operation,
                   re_success = res_success result,
                   re_message = (case res_message result of None \<Rightarrow> NoText
                                 | Some m \<Rightarrow> ServiceText m)\<rparr>]
           in if res_success result
              then batch_loop rt sm cont fs1 rest (results1, errors, successful + 1)
              else
                (let errors1 = errors @
                       [\<lparr>ee_path = op_path operation, ee_type = op_type operation,
                         ee_error = (case res_message result of None \<Rightarrow> UnknownError
                                     | Some m \<Rightarrow> ServiceText m)\<rparr>]
                 in if \<not> cont then ((results1, errors1, successful), fs1)
                    else batch_loop rt sm cont fs1 rest (results1, errors1, successful)))
      | (Inl e, fs1) \<Rightarrow>
          (let errors1 = errors @
                 [\<lparr>ee_path = op_path operation, ee_type = op_type operation,
                   ee_error = ExceptionText e\<rparr>];
               results1 = results @
                 [\<lparr>re_path = op_path operation, re_type = op_type operation,
                   re_success = False, re_message = ExceptionText e\<rparr>]
           in if \<not> cont then ((results1, errors1, successful), fs1)
              else batch_loop rt sm cont fs1 rest (results1, errors1, successful)))"

record BatchOperationRequest =
  operations :: "batch_operation list"
  continue_on_error :: bool

record BatchOperationResponse =
  total_operations :: int
  successful_operations :: int
  failed_operations :: int
  results :: "result_entry list"
  errors :: "error_entry list"

definition batch_operations ::
  "runtime \<Rightarrow> SecurityManager \<Rightarrow> filesystem \<Rightarrow> BatchOperationRequest
     \<Rightarrow> BatchOperationResponse \<times> filesystem" where
  "batch_operations rt sm fs request =
     (case batch_loop rt sm (continue_on_error request) fs (operations request) ([], [], 0) of
        ((result_list, error_list, successful), fs1) \<Rightarrow>
          (\<lparr>total_operations = int (length (operations request)),
            successful_operations = successful,
            failed_operations = int (length (operations request)) - successful,
            results = result_list, errors = error_list\<rparr>, fs1))"

text \<open>What identifies an operation in a batch response: its path and its type.\<close>

definition operation_key :: "batch_operation \<Rightarrow> str \<times> str option" where
  "operation_key operation = (op_path operation, op_type operation)"

definition entry_key :: "result_entry \<Rightarrow> str \<times> str option" where
  "entry_key r = (re_path r, re_type r)"

definition error_key :: "error_entry \<Rightarrow> str \<times> str option" where
  "error_key e = (ee_path e, ee_type e)"

section \<open>Scenario data\<close>

text \<open>A runtime to evaluate scenarios with: lower-casing of ASCII letters, the bytes
  themselves in place of their digest, and no MIME types.\<close>

definition ascii_lower :: "str \<Rightarrow> str" where
  "ascii_lower s = map (\<lambda>c. if 65 \<le> c \<and> c \<le> 90 then c + 32 else c) s"

definition example_runtime :: runtime where
  "example_runtime =
     \<lparr>lower = ascii_lower, sha256_hexdigest = (\<lambda>b. b), guess_type = (\<lambda>p. None)\<rparr>"

definition empty_sandbox :: filesystem where
  "empty_sandbox = [([S ''data''], Dir)]"

definition no_data :: request_data where
  "no_data =
     \<lparr>d_path = None, d_content = None, d_overwrite = None, d_encoding = None,
      d_create_if_missing = None, d_recursive = None\<rparr>"

definition create_op :: "string \<Rightarrow> string \<Rightarrow> batch_operation" where
  "create_op p c =
     \<lparr>op_type = Some (S ''create_file''), op_path = [],
      op_data = no_data\<lparr>d_path := Some (S p), d_content := Some (S c)\<rparr>\<rparr>"

definition delete_op :: "string \<Rightarrow> batch_operation" where
  "delete_op p = \<lparr>op_type = Some (S ''delete''), op_path = S p, op_data = no_data\<rparr>"

definition mkdir_op :: "string \<Rightarrow> batch_operation" where
  "mkdir_op p =
     \<lparr>op_type = Some (S ''create_directory''), op_path = [],
      op_data = no_data\<lparr>d_path := Some (S p)\<rparr>\<rparr>"

definition stopping_batch :: BatchOperationRequest where
  "stopping_batch =
     \<lparr>operations = [delete_op ''missing.txt'', create_op ''a.txt'' ''x'', mkdir_op ''batch_dir''],
      continue_on_error = False\<rparr>"

definition stopping_response :: BatchOperationResponse where
  "stopping_response =
     \<lparr>total_operations = 3, successful_operations = 0, failed_operations = 3,
      results = [\<lparr>re_path = S ''missing.txt'', re_type = Some (S ''delete''),
                  re_success = False, re_message = ServiceText NoDeleteRightsMsg\<rparr>],
      errors = [\<lparr>ee_path = S ''missing.txt'', ee_type = Some (S ''delete''),
                 ee_error = ServiceText NoDeleteRightsMsg\<rparr>]\<rparr>"




definition todo_request :: FileCreateRequest where
  "todo_request =
     \<lparr>fcr_path = S ''notes/todo.txt'', fcr_content = S ''buy milk'', fcr_overwrite = False,
      fcr_encoding = Utf8\<rparr>"




definition latin1_request :: FileCreateRequest where
  "latin1_request =
     \<lparr>fcr_path = S ''notes/todo.txt'', fcr_content = [233], fcr_overwrite = False,
      fcr_encoding = Latin1\<rparr>"

definition todo_sandbox :: "bytes \<Rightarrow> filesystem" where
  "todo_sandbox b =
     [([S ''data''], Dir), ([S ''data'', S ''notes''], Dir),
      ([S ''data'', S ''notes'', S ''todo.txt''], File b)]"

definition listing_sandbox :: filesystem where
  "listing_sandbox =
     [([S ''data''], Dir), ([S ''data'', S ''b.txt''], File []),
      ([S ''data'', S ''.hidden''], File (S ''x'')), ([S ''data'', S ''A''], Dir),
      ([S ''data'', S ''A'', S ''inner.txt''], File (S ''y'')),
      ([S ''data'', S ''a.txt''], File (S ''zz'')), ([S ''data'', S ''B.txt''], File (S ''w''))]"

section \<open>Path safety\<close>

lemma split_on_nonempty: "split_on sep s \<noteq> []"
  by (induction s) (auto split: list.splits)

lemma split_on_lstrip_mem:
  "seg \<in> set (split_on sep s) \<Longrightarrow> seg \<noteq> [] \<Longrightarrow> \<not> P (hd seg)
     \<Longrightarrow> seg \<in> set (split_on sep (dropWhile P s))"
proof (induction s)
  case Nil
  then show ?case by simp
next
  case (Cons c cs)
  show ?case
  proof (cases "P c")
    case False
    then show ?thesis using Cons.prems by simp
  next
    case True
    have "seg \<in> set (split_on sep cs)"
    proof (cases "c = sep")
      case True
      then show ?thesis using Cons.prems by auto
    next
      case False
      obtain w ws where ws: "split_on sep cs = w # ws"
        using split_on_nonempty [of sep cs] by (cases "split_on sep cs") auto
      with False Cons.prems have "seg = c # w \<or> seg \<in> set ws" by auto
      with \<open>P c\<close> Cons.prems ws show ?thesis by auto
    qed
    with Cons True show ?thesis by simp
  qed
qed

lemma split_on_snoc:
  "split_on sep (xs @ [c]) =
     (if c = sep then split_on sep xs @ [[]]
      else butlast (split_on sep xs) @ [last (split_on sep xs) @ [c]])"
proof (induction xs)
  case Nil
  then show ?case by simp
next
  case (Cons x xs)
  obtain w ws where ws: "split_on sep xs = w # ws"
    using split_on_nonempty [of sep xs] by (cases "split_on sep xs") auto
  obtain v vs where vs: "split_on sep (xs @ [c]) = v # vs"
    using split_on_nonempty [of sep "xs @ [c]"] by (cases "split_on sep (xs @ [c])") auto
  show ?case using Cons ws vs by (auto split: if_splits)
qed

lemma split_on_rev: "split_on sep (rev s) = rev (map rev (split_on sep s))"
proof (induction s)
  case Nil
  then show ?case by simp
next
  case (Cons c cs)
  obtain w ws where ws: "split_on sep cs = w # ws"
    using split_on_nonempty [of sep cs] by (cases "split_on sep cs") auto
  show ?case using Cons ws
    by (auto simp: split_on_snoc butlast_append last_rev rev_map butlast_rev
             simp flip: rev_map)
qed

lemma split_on_rstrip_mem:
  assumes "seg \<in> set (split_on sep s)" and "seg \<noteq> []" and "\<not> P (last seg)"
  shows "seg \<in> set (split_on sep (rstrip P s))"
proof -
  have "rev seg \<in> set (split_on sep (rev s))"
    using assms(1) by (simp add: split_on_rev)
  moreover have "rev seg \<noteq> []" and "\<not> P (hd (rev seg))"
    using assms(2,3) by (simp_all add: hd_rev)
  ultimately have "rev seg \<in> set (split_on sep (dropWhile P (rev s)))"
    by (rule split_on_lstrip_mem)
  then have "rev (rev seg) \<in> set (split_on sep (rev (dropWhile P (rev s))))"
    unfolding split_on_rev [of sep "dropWhile P (rev s)"] by (simp only: set_rev set_map image_eqI)
  then show ?thesis by (simp add: rstrip_def)
qed

lemma dotdot_survives_cleaning:
  assumes "dotdot \<in> set (split_on slash s)"
  shows "dotdot \<in> set (parse_parts (lstrip_chars [slash, backslash] (strip s)))"
proof -
  have "dotdot \<in> set (split_on slash (lstrip isspace s))"
    unfolding lstrip_def using assms by (rule split_on_lstrip_mem) (simp_all add: isspace_def)
  then have "dotdot \<in> set (split_on slash (strip s))"
    unfolding strip_def by (rule split_on_rstrip_mem) (simp_all add: isspace_def)
  then have "dotdot \<in> set (split_on slash (lstrip_chars [slash, backslash] (strip s)))"
    unfolding lstrip_chars_def lstrip_def by (rule split_on_lstrip_mem) simp_all
  then show ?thesis by (simp add: parse_parts_def)
qed

lemma parse_parts_subset_joinpath: "set (parse_parts s) \<subseteq> set (joinpath base s)"
  by (auto simp: joinpath_def)

lemma is_path_safe_dotdot: "dotdot \<in> set p \<Longrightarrow> \<not> is_path_safe resolve sm p"
  by (simp add: is_path_safe_def split: option.splits)

text \<open>
  C1. For every absolute path \<open>p\<close>, \<open>is_path_safe\<close> answers true exactly when the
  canonical form \<open>c\<close> of \<open>p\<close> exists and lies in the sandbox (the root itself or below
  it, as \<open>relative_to\<close> accepts both), \<open>p\<close> has no \<open>..\<close> part, \<open>c\<close> is not a blocked
  path nor below one, and no part of \<open>c\<close> after the root begins with a dot.
\<close>

theorem is_path_safe_iff:
  "is_path_safe resolve sm p \<longleftrightarrow>
     (\<exists>c. resolve p = Some c \<and> prefix (base_dir sm) c \<and> dotdot \<notin> set p \<and>
          (\<forall>b \<in> set (blocked_paths_set sm). \<not> prefix b c) \<and>
          (\<forall>seg \<in> set (drop (length (base_dir sm)) c). \<not> startswith_dot seg))"
  by (auto simp: is_path_safe_def relative_to_def is_relative_to_def list_ex_iff
           split: option.splits)

theorem is_path_safe_iff_witness:
  "is_path_safe realpath data_sandbox [S ''data'', S ''notes'', S ''todo.txt''] \<and>
   \<not> is_path_safe realpath data_sandbox [S ''data'', S ''.git'', S ''config''] \<and>
   \<not> is_path_safe realpath data_sandbox [S ''data'', S ''..'', S ''etc'', S ''passwd'']"
  unfolding is_path_safe_iff [of realpath data_sandbox]
  by (simp add: relative_to_def is_relative_to_def realpath_step_def realpath_def
      is_path_safe_def data_sandbox_def Let_def)

text \<open>
  C2, as the code has it. A candidate with a \<open>..\<close> segment is never resolved, whatever the
  canonicalisation; with root \<open>/data\<close> this rejects \<open>../secret.txt\<close>. A leading separator
  is not a reason for rejection: \<open>get_safe_path\<close> strips it and resolves the rest
  below the root.
\<close>

theorem get_safe_path_rejects_dotdot:
  "dotdot \<in> set (split_on slash candidate) \<Longrightarrow> get_safe_path resolve sm candidate = None"
proof -
  assume "dotdot \<in> set (split_on slash candidate)"
  then have "dotdot \<in> set (parse_parts (lstrip_chars [slash, backslash] (strip candidate)))"
    by (rule dotdot_survives_cleaning)
  then have "dotdot \<in> set (joinpath (base_dir sm) (lstrip_chars [slash, backslash] (strip candidate)))"
    using parse_parts_subset_joinpath by blast
  then show ?thesis
    by (simp add: get_safe_path_def Let_def is_path_safe_dotdot)
qed

theorem get_safe_path_rejects_dotdot_witness:
  "dotdot \<in> set (split_on slash (S ''../secret.txt'')) \<and>
   get_safe_path realpath data_sandbox (S ''../secret.txt'') = None"
proof -
  have h: "dotdot \<in> set (split_on slash (S ''../secret.txt''))" by simp
  show ?thesis using h get_safe_path_rejects_dotdot [OF h] by simp
qed

theorem get_safe_path_leading_separator_counterexample:
  "startswith_sep (S ''/notes.txt'') \<and>
   get_safe_path realpath data_sandbox (S ''/notes.txt'') = Some [S ''data'', S ''notes.txt'']"
  by (simp add: isspace_def lstrip_def rstrip_def strip_def lstrip_chars_def parse_parts_def
      joinpath_def relative_to_def is_relative_to_def realpath_step_def realpath_def
      is_path_safe_def get_safe_path_def data_sandbox_def Let_def)

section \<open>File system lemmas\<close>

declare mkdir.simps [simp del]

lemma node_at_update:
  "p \<noteq> [] \<Longrightarrow> node_at (AList.update p n fs) q = (if q = p then Some n else node_at fs q)"
  by (simp add: node_at_def update_conv')

lemma walk_snoc:
  "walk fs cur (ss @ [s]) =
     (case walk fs cur ss of
        Inl e \<Rightarrow> Inl e
      | Inr (File b) \<Rightarrow> Inl NotADirectoryError
      | Inr Dir \<Rightarrow>
          (case node_at fs (cur @ ss @ [s]) of
             None \<Rightarrow> Inl FileNotFoundError
           | Some n \<Rightarrow> Inr n))"
  by (induction ss arbitrary: cur) (auto split: option.splits node.splits)

lemma os_stat_snoc:
  "os_stat fs (q @ [s]) =
     (case os_stat fs q of
        Inl e \<Rightarrow> Inl e
      | Inr (File b) \<Rightarrow> Inl NotADirectoryError
      | Inr Dir \<Rightarrow>
          (case node_at fs (q @ [s]) of
             None \<Rightarrow> Inl FileNotFoundError
           | Some n \<Rightarrow> Inr n))"
  by (auto simp: os_stat_def walk_snoc split: sum.splits node.splits option.splits)

lemma os_stat_root [simp]: "os_stat fs [] = Inr Dir"
  by (simp add: os_stat_def node_at_def)

lemma os_stat_parent:
  "p \<noteq> [] \<Longrightarrow> os_stat fs p =
     (case os_stat fs (parent p) of
        Inl e \<Rightarrow> Inl e
      | Inr (File b) \<Rightarrow> Inl NotADirectoryError
      | Inr Dir \<Rightarrow>
          (case node_at fs p of
             None \<Rightarrow> Inl FileNotFoundError
           | Some n \<Rightarrow> Inr n))"
  using os_stat_snoc [of fs "butlast p" "last p"]
  by (auto simp: parent_def split: sum.splits node.splits option.splits)




text \<open>A change at \<open>p\<close> is invisible from every path that does not pass through \<open>p\<close>.\<close>

lemma os_stat_update_other:
  assumes "p \<noteq> []" and "\<not> prefix p q"
  shows "os_stat (AList.update p n fs) q = os_stat fs q"
  using assms(2)
proof (induction q rule: rev_induct)
  case Nil
  then show ?case by simp
next
  case (snoc s q)
  from snoc.prems have "\<not> prefix p q" and "p \<noteq> q @ [s]"
    by (auto simp: prefix_def)
  with snoc.IH assms(1) show ?case
    by (auto simp: os_stat_snoc node_at_update split: sum.splits node.splits option.splits)
qed

lemma os_stat_update_same:
  assumes "p \<noteq> []" and "os_stat fs (parent p) = Inr Dir"
  shows "os_stat (AList.update p n fs) p = Inr n"
proof -
  have "\<not> prefix p (parent p)"
    using assms(1) by (metis parent_def append_butlast_last_id prefix_order.dual_order.antisym prefixI self_append_conv snoc_eq_iff_butlast)
  then have "os_stat (AList.update p n fs) (parent p) = Inr Dir"
    using assms by (simp add: os_stat_update_other)
  then show ?thesis
    using assms(1) by (auto simp: os_stat_parent node_at_update)
qed





lemma os_mkdir_exists: "os_stat fs p = Inr n \<Longrightarrow> os_mkdir fs p = Inl FileExistsError"
  by (cases "p = []")
     (auto simp: os_mkdir_def os_stat_parent split: sum.splits node.splits option.splits)

lemma os_mkdir_not_a_directory:
  "os_stat fs p = Inl NotADirectoryError \<Longrightarrow> os_mkdir fs p = Inl NotADirectoryError"
  by (cases "p = []")
     (auto simp: os_mkdir_def os_stat_parent split: sum.splits node.splits option.splits)





lemma mkdir_existing_file:
  "os_stat fs p = Inr (File b) \<Longrightarrow> mkdir fs p parents exist_ok = (Some FileExistsError, fs)"
  by (subst mkdir.simps) (simp add: os_mkdir_exists is_dir_def)

lemma mkdir_not_a_directory:
  "os_stat fs p = Inl NotADirectoryError
     \<Longrightarrow> mkdir fs p parents exist_ok = (Some NotADirectoryError, fs)"
  by (subst mkdir.simps) (simp add: os_mkdir_not_a_directory is_dir_def)




section \<open>Codec lemmas\<close>

lemma regroup: "(x::nat) * (k * 64) + y * k = (x * 64 + y) * k"
  by (simp add: algebra_simps)

lemma split3: "(c::nat) div 4096 * 4096 + c div 64 mod 64 * 64 + c mod 64 = c"
proof -
  have "c div 4096 = c div 64 div 64"
    by (simp add: div_mult2_eq [symmetric])
  then have "c div 4096 * 4096 + c div 64 mod 64 * 64
      = c div 64 div 64 * (64 * 64) + c div 64 mod 64 * 64"
    by simp
  also have "\<dots> = (c div 64 div 64 * 64 + c div 64 mod 64) * 64"
    by (rule regroup)
  also have "\<dots> = c div 64 * 64"
    by (simp only: div_mult_mod_eq)
  finally show ?thesis by simp
qed

lemma split4:
  "(c::nat) div 262144 * 262144 + c div 4096 mod 64 * 4096 + c div 64 mod 64 * 64 + c mod 64 = c"
proof -
  have "c div 262144 = c div 4096 div 64"
    by (simp add: div_mult2_eq [symmetric])
  then have "c div 262144 * 262144 + c div 4096 mod 64 * 4096
      = c div 4096 div 64 * (4096 * 64) + c div 4096 mod 64 * 4096"
    by simp
  also have "\<dots> = (c div 4096 div 64 * 64 + c div 4096 mod 64) * 4096"
    by (rule regroup)
  also have "\<dots> = c div 4096 * 4096"
    by (simp only: div_mult_mod_eq)
  finally show ?thesis using split3 [of c] by simp
qed


lemma utf8_decode_2:
  assumes "h < 32" "2 \<le> h" "l < 64"
  shows "utf8_decode ((192 + h) # (128 + l) # rest) = map_option (Cons (h * 64 + l)) (utf8_decode rest)"
  using assms by (simp add: is_continuation_def)

lemma utf8_decode_3:
  assumes "h < 16" "m < 64" "l < 64" "2048 \<le> h * 4096 + m * 64 + l"
    "\<not> (55296 \<le> h * 4096 + m * 64 + l \<and> h * 4096 + m * 64 + l \<le> 57343)"
  shows "utf8_decode ((224 + h) # (128 + m) # (128 + l) # rest)
           = map_option (Cons (h * 4096 + m * 64 + l)) (utf8_decode rest)"
  using assms by (simp add: is_continuation_def Let_def)

lemma utf8_decode_4:
  assumes "h < 5" "k < 64" "m < 64" "l < 64" "65536 \<le> h * 262144 + k * 4096 + m * 64 + l"
    "h * 262144 + k * 4096 + m * 64 + l < 1114112"
  shows "utf8_decode ((240 + h) # (128 + k) # (128 + m) # (128 + l) # rest)
           = map_option (Cons (h * 262144 + k * 4096 + m * 64 + l)) (utf8_decode rest)"
  using assms by (simp add: is_continuation_def Let_def)

lemma utf8_decode_encode_cp:
  assumes "utf8_encode_cp c = Some bs"
  shows "utf8_decode (bs @ rest) = map_option (Cons c) (utf8_decode rest)"
proof -
  consider "c < 128" | "128 \<le> c" "c < 2048" | "2048 \<le> c" "c < 65536" | "65536 \<le> c" "c < 1114112"
    | "1114112 \<le> c"
    by linarith
  then show ?thesis
  proof cases
    case 1
    with assms show ?thesis by (auto simp: utf8_encode_cp_def)
  next
    case 2
    then have bs: "bs = [192 + c div 64, 128 + c mod 64]"
      using assms by (auto simp: utf8_encode_cp_def)
    have "c div 64 < 32" "2 \<le> c div 64" "c mod 64 < 64"
      using 2 by simp_all
    then have "utf8_decode ((192 + c div 64) # (128 + c mod 64) # rest)
        = map_option (Cons (c div 64 * 64 + c mod 64)) (utf8_decode rest)"
      by (rule utf8_decode_2)
    then show ?thesis by (simp add: bs)
  next
    case 3
    then have ns: "\<not> (55296 \<le> c \<and> c \<le> 57343)"
      and bs: "bs = [224 + c div 4096, 128 + c div 64 mod 64, 128 + c mod 64]"
      using assms by (auto simp: utf8_encode_cp_def split: if_splits)
    have "c div 4096 < 16" "c div 64 mod 64 < 64" "c mod 64 < 64"
      using 3 by simp_all
    moreover have "2048 \<le> c div 4096 * 4096 + c div 64 mod 64 * 64 + c mod 64"
      "\<not> (55296 \<le> c div 4096 * 4096 + c div 64 mod 64 * 64 + c mod 64 \<and>
          c div 4096 * 4096 + c div 64 mod 64 * 64 + c mod 64 \<le> 57343)"
      using 3(1) ns by (simp_all only: split3 not_False_eq_True)
    ultimately have "utf8_decode ((224 + c div 4096) # (128 + c div 64 mod 64) # (128 + c mod 64) # rest)
        = map_option (Cons (c div 4096 * 4096 + c div 64 mod 64 * 64 + c mod 64))
            (utf8_decode rest)"
      by (rule utf8_decode_3)
    then show ?thesis by (simp only: bs split3 append_Cons append_Nil)
  next
    case 4
    then have bs: "bs = [240 + c div 262144, 128 + c div 4096 mod 64, 128 + c div 64 mod 64,
              128 + c mod 64]"
      using assms by (auto simp: utf8_encode_cp_def)
    have "c div 262144 < 5" "c div 4096 mod 64 < 64" "c div 64 mod 64 < 64" "c mod 64 < 64"
      using 4 by simp_all
    moreover have
      "65536 \<le> c div 262144 * 262144 + c div 4096 mod 64 * 4096 + c div 64 mod 64 * 64 + c mod 64"
      "c div 262144 * 262144 + c div 4096 mod 64 * 4096 + c div 64 mod 64 * 64 + c mod 64 < 1114112"
      using 4 by (simp_all only: split4)
    ultimately have "utf8_decode ((240 + c div 262144) # (128 + c div 4096 mod 64) #
          (128 + c div 64 mod 64) # (128 + c mod 64) # rest)
        = map_option (Cons (c div 262144 * 262144 + c div 4096 mod 64 * 4096 +
            c div 64 mod 64 * 64 + c mod 64)) (utf8_decode rest)"
      by (rule utf8_decode_4)
    then show ?thesis by (simp only: bs split4 append_Cons append_Nil)
  next
    case 5
    with assms show ?thesis by (auto simp: utf8_encode_cp_def)
  qed
qed

lemma utf8_decode_encode: "utf8_encode s = Some b \<Longrightarrow> utf8_decode b = Some s"
proof (induction s arbitrary: b)
  case Nil
  then show ?case by simp
next
  case (Cons c cs)
  then obtain bc bs where "utf8_encode_cp c = Some bc" "utf8_encode cs = Some bs" "b = bc @ bs"
    by (auto split: option.splits)
  with Cons.IH show ?case by (simp add: utf8_decode_encode_cp)
qed

lemma universal_newlines_id: "13 \<notin> set s \<Longrightarrow> universal_newlines s = s"
  by (induction s rule: universal_newlines.induct) auto


section \<open>The service\<close>

lemma lstrip_chars_not_sep: "\<not> startswith_sep (lstrip_chars [slash, backslash] s)"
  by (induction s) (auto simp: lstrip_chars_def lstrip_def)

lemma get_safe_path_Some:
  assumes "get_safe_path resolve sm s = Some p"
  shows "is_path_safe resolve sm p" and "prefix (base_dir sm) p"
    and "\<exists>rel. relative_to p (base_dir sm) = Some rel"
proof -
  let ?clean = "lstrip_chars [slash, backslash] (strip s)"
  from assms have p: "p = joinpath (base_dir sm) ?clean" and "is_path_safe resolve sm p"
    by (auto simp: get_safe_path_def Let_def split: if_splits)
  then show "is_path_safe resolve sm p" by simp
  from p show "prefix (base_dir sm) p"
    by (simp add: joinpath_def lstrip_chars_not_sep)
  then show "\<exists>rel. relative_to p (base_dir sm) = Some rel"
    by (simp add: relative_to_def)
qed

lemma exists_path_iff: "exists_path fs p \<longleftrightarrow> (\<exists>n. os_stat fs p = Inr n)"
  by (auto simp: exists_path_def split: sum.splits)

lemma is_dir_iff: "is_dir fs p \<longleftrightarrow> os_stat fs p = Inr Dir"
  by (auto simp: is_dir_def split: sum.splits node.splits)

lemma is_file_iff: "is_file fs p \<longleftrightarrow> (\<exists>b. os_stat fs p = Inr (File b))"
  by (auto simp: is_file_def split: sum.splits node.splits)

text \<open>
  C3, as the code has it. A delete of a safe path whose target does not exist fails in
  \<open>can_delete_file\<close>, before the service looks at the target: the message is "Net prav
  na udalenie fajla" (no rights to delete the file), a permission failure in the
  specification's taxonomy, and not the "not found" message the branch further down
  would give. The file system is left as it was.
\<close>

theorem delete_file_absent:
  assumes "get_safe_path realpath sm relative_path = Some file_path"
    and "\<not> exists_path fs file_path"
  shows "delete_file sm fs relative_path = (failed relative_path Delete NoDeleteRightsMsg, fs) \<and>
         kind_of NoDeleteRightsMsg = Forbidden"
  using assms by (simp add: delete_file_def can_delete_file_def)

theorem delete_file_absent_witness:
  "get_safe_path realpath data_sandbox (S ''nonexistent.txt'')
     = Some [S ''data'', S ''nonexistent.txt''] \<and>
   \<not> exists_path empty_sandbox [S ''data'', S ''nonexistent.txt''] \<and>
   delete_file data_sandbox empty_sandbox (S ''nonexistent.txt'')
     = (failed (S ''nonexistent.txt'') Delete NoDeleteRightsMsg, empty_sandbox) \<and>
   res_message (fst (delete_file data_sandbox empty_sandbox (S ''nonexistent.txt'')))
     \<noteq> Some NotFoundMsg"
proof -
  note unfold = isspace_def lstrip_def rstrip_def strip_def lstrip_chars_def parse_parts_def
    joinpath_def relative_to_def is_relative_to_def realpath_step_def realpath_def path_str_def
    node_at_def os_stat_def exists_path_def is_file_def is_dir_def os_access_def parent_def
    unlink_def rmtree_def is_path_safe_def get_safe_path_def can_delete_file_def
    data_sandbox_def failed_def succeeded_def delete_file_def empty_sandbox_def AList.delete_eq
    Let_def
  have safe: "get_safe_path realpath data_sandbox (S ''nonexistent.txt'')
     = Some [S ''data'', S ''nonexistent.txt'']"
    by (simp add: unfold)
  have absent: "\<not> exists_path empty_sandbox [S ''data'', S ''nonexistent.txt'']"
    by (simp add: unfold)
  show ?thesis
    using safe absent delete_file_absent [OF safe absent] by (simp add: failed_def)
qed









lemma create_file_success_cases:
  assumes "create_file rt sm fs request = (r, fs')" and "res_success r"
  obtains file_path encoded fs1 checksum rel where
    "get_safe_path realpath sm (fcr_path request) = Some file_path"
    "encode (fcr_encoding request) (fcr_content request) = Inr encoded"
    "validate_file_size sm (int (length encoded))"
    "write_bytes fs1 file_path encoded = Inr fs'"
    "calculate_checksum rt (fcr_content request) = Inr checksum"
    "relative_to file_path (base_dir sm) = Some rel"
    "r = succeeded (path_str rel) Create (Some (int (length encoded))) (Some checksum)"
  using assms
  by (auto simp: create_file_def failed_def Let_def
           split: option.splits sum.splits if_splits prod.splits)

lemma write_bytes_stat:
  assumes "write_bytes fs p b = Inr fs'"
  shows "os_stat fs' p = Inr (File b)"
proof -
  from assms have "p \<noteq> []" "os_stat fs (parent p) = Inr Dir"
    "fs' = AList.update p (File b) fs"
    by (auto simp: write_bytes_def split: if_splits sum.splits node.splits option.splits)
  then show ?thesis by (simp add: os_stat_update_same)
qed




text \<open>
  C5, as the code has it. After a successful create in UTF-8 of content without a
  carriage return, a read of the same path returns that content, and the checksum
  \<open>calculate_checksum\<close> gives for it. (The read decodes UTF-8 whatever the encoding of
  the create was, and turns every carriage return into a line feed.)
\<close>

theorem read_after_create:
  assumes "create_file rt sm fs request = (r, fs')" and "res_success r"
    and "fcr_encoding request = Utf8" and "13 \<notin> set (fcr_content request)"
  shows "\<exists>file_content checksum.
           read_file rt sm fs' (fcr_path request) = Inr file_content \<and>
           fc_content file_content = fcr_content request \<and>
           calculate_checksum rt (fcr_content request) = Inr checksum \<and>
           fc_checksum file_content = Some checksum \<and>
           res_checksum r = Some checksum"
proof -
  from assms(1,2) obtain file_path encoded fs1 checksum rel where
    safe: "get_safe_path realpath sm (fcr_path request) = Some file_path"
    and enc: "encode (fcr_encoding request) (fcr_content request) = Inr encoded"
    and size: "validate_file_size sm (int (length encoded))"
    and wr: "write_bytes fs1 file_path encoded = Inr fs'"
    and ck: "calculate_checksum rt (fcr_content request) = Inr checksum"
    and rel: "relative_to file_path (base_dir sm) = Some rel"
    and r: "r = succeeded (path_str rel) Create (Some (int (length encoded))) (Some checksum)"
    by (rule create_file_success_cases)
  have stat: "os_stat fs' file_path = Inr (File encoded)"
    using wr by (rule write_bytes_stat)
  have "can_read_file sm fs' file_path"
    using get_safe_path_Some(1) [OF safe] stat
    by (simp add: can_read_file_def exists_path_def is_file_def os_access_def)
  moreover have enc8: "encode Utf8 (fcr_content request) = Inr encoded"
    using enc assms(3) by simp
  then have "utf8_decode encoded = Some (fcr_content request)"
    by (auto simp: encode_def utf8_decode_encode split: option.splits)
  then have "read_text fs' file_path = Inr (fcr_content request)"
    using stat assms(4) by (simp add: read_text_def read_bytes_def universal_newlines_id)
  ultimately have "read_file rt sm fs' (fcr_path request)
      = Inr \<lparr>fc_path = path_str rel, fc_content = fcr_content request,
             fc_size = int (length encoded), fc_mime_type = get_mime_type rt file_path,
             fc_encoding = Utf8, fc_checksum = Some checksum\<rparr>"
    using safe enc8 size ck rel by (simp add: read_file_def)
  with ck r show ?thesis by (simp add: succeeded_def)
qed

lemma todo_create_eval:
  "create_file example_runtime data_sandbox empty_sandbox todo_request
     = (succeeded (S ''notes/todo.txt'') Create (Some 8) (Some (S ''buy milk'')),
        todo_sandbox (S ''buy milk''))"
  by (simp add: isspace_def lstrip_def rstrip_def strip_def lstrip_chars_def parse_parts_def
      joinpath_def relative_to_def is_relative_to_def realpath_step_def realpath_def
      path_name_def path_suffix_def path_str_def utf8_encode_cp_def encode_def node_at_def
      os_stat_def exists_path_def is_dir_def parent_def os_mkdir_def write_bytes_def
      is_path_safe_def get_safe_path_def validate_file_extension_def validate_file_size_def
      calculate_checksum_def data_sandbox_def failed_def succeeded_def create_file_def
      ascii_lower_def example_runtime_def empty_sandbox_def todo_request_def todo_sandbox_def
      mkdir.simps Let_def todo_request_def todo_sandbox_def)

theorem read_after_create_witness:
  "create_file example_runtime data_sandbox empty_sandbox todo_request
     = (succeeded (S ''notes/todo.txt'') Create (Some 8) (Some (S ''buy milk'')),
        todo_sandbox (S ''buy milk'')) \<and>
   res_success (succeeded (S ''notes/todo.txt'') Create (Some 8) (Some (S ''buy milk''))) \<and>
   fcr_encoding todo_request = Utf8 \<and>
   13 \<notin> set (fcr_content todo_request) \<and>
   (\<exists>file_content.
      read_file example_runtime data_sandbox (todo_sandbox (S ''buy milk'')) (S ''notes/todo.txt'')
        = Inr file_content \<and>
      fc_content file_content = S ''buy milk'' \<and>
      fc_checksum file_content = Some (S ''buy milk''))"
proof -
  have s: "res_success (succeeded (S ''notes/todo.txt'') Create (Some 8) (Some (S ''buy milk'')))"
    by (simp add: succeeded_def)
  have e: "fcr_encoding todo_request = Utf8" "13 \<notin> set (fcr_content todo_request)"
    "fcr_path todo_request = S ''notes/todo.txt''" "fcr_content todo_request = S ''buy milk''"
    "calculate_checksum example_runtime (S ''buy milk'') = Inr (S ''buy milk'')"
    by (simp_all add: todo_request_def isspace_def lstrip_def rstrip_def strip_def
        lstrip_chars_def parse_parts_def joinpath_def relative_to_def is_relative_to_def
        realpath_step_def realpath_def path_name_def path_suffix_def path_str_def
        utf8_encode_cp_def is_continuation_def encode_def node_at_def os_stat_def
        exists_path_def is_file_def is_dir_def os_access_def parent_def os_mkdir_def
        write_bytes_def read_bytes_def is_path_safe_def get_safe_path_def
        validate_file_extension_def validate_file_size_def calculate_checksum_def
        get_mime_type_def can_read_file_def data_sandbox_def failed_def succeeded_def
        create_file_def read_text_def read_file_def ascii_lower_def example_runtime_def
        empty_sandbox_def todo_request_def todo_sandbox_def mkdir.simps Let_def)
  from read_after_create [OF todo_create_eval s e(1,2)] e(3,4,5)
  have "\<exists>file_content.
      read_file example_runtime data_sandbox (todo_sandbox (S ''buy milk'')) (S ''notes/todo.txt'')
        = Inr file_content \<and>
      fc_content file_content = S ''buy milk'' \<and>
      fc_checksum file_content = Some (S ''buy milk'')"
    by auto
  with todo_create_eval s e(1,2) show ?thesis by blast
qed

theorem read_after_latin1_create_counterexample:
  "validate_path (S ''notes/todo.txt'') = Inr (fcr_path latin1_request) \<and>
   create_file example_runtime data_sandbox empty_sandbox latin1_request
     = (succeeded (S ''notes/todo.txt'') Create (Some 1) (Some [195, 169]), todo_sandbox [233]) \<and>
   read_file example_runtime data_sandbox (todo_sandbox [233]) (fcr_path latin1_request)
     = Inl (IOError UnicodeDecodeError)"
  by (simp add: isspace_def lstrip_def rstrip_def strip_def lstrip_chars_def parse_parts_def
      joinpath_def relative_to_def is_relative_to_def realpath_step_def realpath_def
      path_name_def path_suffix_def path_str_def utf8_encode_cp_def is_continuation_def
      encode_def node_at_def os_stat_def exists_path_def is_file_def is_dir_def os_access_def
      parent_def os_mkdir_def write_bytes_def read_bytes_def is_path_safe_def get_safe_path_def
      validate_file_extension_def validate_file_size_def calculate_checksum_def
      get_mime_type_def can_read_file_def data_sandbox_def validate_path_def failed_def
      succeeded_def create_file_def read_text_def read_file_def ascii_lower_def
      example_runtime_def empty_sandbox_def latin1_request_def todo_sandbox_def mkdir.simps
      Let_def latin1_request_def todo_sandbox_def)

lemma carriage_return_read_differs:
  "create_file example_runtime data_sandbox empty_sandbox
     (todo_request\<lparr>fcr_content := [97, 13, 98]\<rparr>)
     = (succeeded (S ''notes/todo.txt'') Create (Some 3) (Some [97, 13, 98]),
        todo_sandbox [97, 13, 98]) \<and>
   map_sum id fc_content
     (read_file example_runtime data_sandbox (todo_sandbox [97, 13, 98]) (S ''notes/todo.txt''))
     = Inr [97, 10, 98]"
  by (simp add: isspace_def lstrip_def rstrip_def strip_def lstrip_chars_def parse_parts_def
      joinpath_def relative_to_def is_relative_to_def realpath_step_def realpath_def
      path_name_def path_suffix_def path_str_def utf8_encode_cp_def is_continuation_def
      encode_def node_at_def os_stat_def exists_path_def is_file_def is_dir_def os_access_def
      parent_def os_mkdir_def write_bytes_def read_bytes_def is_path_safe_def get_safe_path_def
      validate_file_extension_def validate_file_size_def calculate_checksum_def
      get_mime_type_def can_read_file_def data_sandbox_def failed_def succeeded_def
      create_file_def read_text_def read_file_def ascii_lower_def example_runtime_def
      empty_sandbox_def todo_request_def todo_sandbox_def mkdir.simps Let_def todo_request_def todo_sandbox_def)

lemma set_iterdir: "set (iterdir fs d) = {n. node_at fs (d @ [n]) \<noteq> None}"
proof -
  have "n \<in> set (iterdir fs d) \<longleftrightarrow> d @ [n] \<in> fst ` set fs" for n
  proof
    assume "n \<in> set (iterdir fs d)"
    then obtain q x where "(q, x) \<in> set fs" "q \<noteq> []" "butlast q = d" "last q = n"
      by (auto simp: iterdir_def)
    then have "(d @ [n], x) \<in> set fs" by (metis append_butlast_last_id)
    then show "d @ [n] \<in> fst ` set fs" by force
  next
    assume "d @ [n] \<in> fst ` set fs"
    then obtain x where "(d @ [n], x) \<in> set fs" by auto
    then show "n \<in> set (iterdir fs d)" by (force simp: iterdir_def)
  qed
  then show ?thesis by (auto simp: node_at_def map_of_eq_None_iff)
qed

lemma distinct_iterdir: "distinct (iterdir fs d)"
  by (simp add: iterdir_def)

lemma child_stat:
  "is_dir fs d \<Longrightarrow> node_at fs (d @ [n]) = Some x \<Longrightarrow> os_stat fs (d @ [n]) = Inr x"
  by (simp add: is_dir_iff os_stat_snoc)

lemma list_items_result:
  assumes "prefix (base_dir sm) d" and "is_dir fs d"
    and "\<forall>n \<in> set names. node_at fs (d @ [n]) \<noteq> None"
  shows "\<exists>fl dl. list_items rt sm fs d names (files, directories)
             = Inr (files @ fl, directories @ dl) \<and>
           map fi_name fl = filter (\<lambda>n. \<not> startswith_dot n \<and> \<not> is_dir fs (d @ [n])) names \<and>
           map fi_name dl = filter (\<lambda>n. \<not> startswith_dot n \<and> is_dir fs (d @ [n])) names \<and>
           list_all (\<lambda>e. \<not> fi_is_directory e) fl \<and> list_all fi_is_directory dl \<and>
           list_all (\<lambda>e. fi_path e = path_str (drop (length (base_dir sm)) (d @ [fi_name e])))
             (fl @ dl)"
  using assms(3)
proof (induction names arbitrary: files directories)
  case Nil
  then show ?case by simp
next
  case (Cons name rest)
  from Cons.prems obtain x where x: "node_at fs (d @ [name]) = Some x" by auto
  with assms(2) have stat: "os_stat fs (d @ [name]) = Inr x" by (rule child_stat)
  from assms(1) have rel: "relative_to (d @ [name]) (base_dir sm)
      = Some (drop (length (base_dir sm)) (d @ [name]))"
    by (auto simp: relative_to_def prefix_def)
  from Cons.prems have rest: "\<forall>n \<in> set rest. node_at fs (d @ [n]) \<noteq> None" by simp
  show ?case
  proof (cases "startswith_dot name")
    case True
    with Cons.IH [OF rest, of files directories] show ?thesis by simp
  next
    case False
    define info where "info =
      \<lparr>fi_name = name, fi_path = path_str (drop (length (base_dir sm)) (d @ [name])),
       fi_size = (if is_dir fs (d @ [name]) then 0 else node_size x),
       fi_is_readonly = \<not> os_access fs (d @ [name]),
       fi_is_directory = is_dir fs (d @ [name]),
       fi_mime_type = (if is_dir fs (d @ [name]) then None else get_mime_type rt (d @ [name])),
       fi_checksum = (if is_dir fs (d @ [name]) then None
                      else calculate_file_checksum rt fs (d @ [name]))\<rparr>"
    have info: "fi_name info = name" "fi_is_directory info = is_dir fs (d @ [name])"
      "fi_path info = path_str (drop (length (base_dir sm)) (d @ [fi_name info]))"
      by (simp_all add: info_def)
    show ?thesis
    proof (cases "is_dir fs (d @ [name])")
      case True
      from Cons.IH [OF rest, of files "directories @ [info]"] obtain fl dl where
        *: "list_items rt sm fs d rest (files, directories @ [info])
              = Inr (files @ fl, (directories @ [info]) @ dl)"
          "map fi_name fl = filter (\<lambda>n. \<not> startswith_dot n \<and> \<not> is_dir fs (d @ [n])) rest"
          "map fi_name dl = filter (\<lambda>n. \<not> startswith_dot n \<and> is_dir fs (d @ [n])) rest"
          "list_all (\<lambda>e. \<not> fi_is_directory e) fl" "list_all fi_is_directory dl"
          "list_all (\<lambda>e. fi_path e = path_str (drop (length (base_dir sm)) (d @ [fi_name e])))
             (fl @ dl)"
        by blast
      have "list_items rt sm fs d (name # rest) (files, directories)
          = Inr (files @ fl, directories @ info # dl)"
        using False True stat rel *(1) by (simp add: Let_def info_def)
      with * False True info show ?thesis
        by (intro exI [of _ fl] exI [of _ "info # dl"]) simp
    next
      case notdir: False
      from Cons.IH [OF rest, of "files @ [info]" directories] obtain fl dl where
        *: "list_items rt sm fs d rest (files @ [info], directories)
              = Inr ((files @ [info]) @ fl, directories @ dl)"
          "map fi_name fl = filter (\<lambda>n. \<not> startswith_dot n \<and> \<not> is_dir fs (d @ [n])) rest"
          "map fi_name dl = filter (\<lambda>n. \<not> startswith_dot n \<and> is_dir fs (d @ [n])) rest"
          "list_all (\<lambda>e. \<not> fi_is_directory e) fl" "list_all fi_is_directory dl"
          "list_all (\<lambda>e. fi_path e = path_str (drop (length (base_dir sm)) (d @ [fi_name e])))
             (fl @ dl)"
        by blast
      have "list_items rt sm fs d (name # rest) (files, directories)
          = Inr (files @ info # fl, directories @ dl)"
        using False notdir stat rel *(1) by (simp add: Let_def info_def)
      with * False notdir info show ?thesis
        by (intro exI [of _ "info # fl"] exI [of _ dl]) simp
    qed
  qed
qed

lemma distinct_map_sort_key:
  "distinct (map f (sort_key k xs)) \<longleftrightarrow> distinct (map f xs)"
  by (simp add: distinct_map)

lemma child_is_dir:
  "is_dir fs d \<Longrightarrow> is_dir fs (d @ [n]) \<longleftrightarrow> node_at fs (d @ [n]) = Some Dir"
  by (auto simp: is_dir_iff os_stat_snoc split: option.splits)

text \<open>
  C6. For a safe path that is a directory, \<open>list_directory\<close> returns a listing. Its
  files are the immediate children that are regular files and whose name does not begin
  with a dot, each once; its directories are the immediate children that are
  directories and whose name does not begin with a dot, each once; the path of an entry
  is that of the child relative to the root. Each of the two lists is sorted by the
  lower-cased name, and \<open>total_count\<close> is the sum of their lengths.
\<close>

theorem list_directory_listing:
  assumes "get_safe_path realpath sm (if relative_path = [] then [dot] else relative_path)
             = Some dir_path"
    and "is_dir fs dir_path"
  shows "\<exists>listing. list_directory rt sm fs relative_path = Inr listing \<and>
           distinct (map fi_name (flr_files listing)) \<and>
           set (map fi_name (flr_files listing))
             = {n. \<not> startswith_dot n \<and> (\<exists>b. node_at fs (dir_path @ [n]) = Some (File b))} \<and>
           distinct (map fi_name (flr_directories listing)) \<and>
           set (map fi_name (flr_directories listing))
             = {n. \<not> startswith_dot n \<and> node_at fs (dir_path @ [n]) = Some Dir} \<and>
           list_all (\<lambda>e. \<not> fi_is_directory e) (flr_files listing) \<and>
           list_all fi_is_directory (flr_directories listing) \<and>
           list_all (\<lambda>e. fi_path e
                        = path_str (drop (length (base_dir sm)) (dir_path @ [fi_name e])))
             (flr_files listing @ flr_directories listing) \<and>
           sorted (map (\<lambda>e. lower rt (fi_name e)) (flr_files listing)) \<and>
           sorted (map (\<lambda>e. lower rt (fi_name e)) (flr_directories listing)) \<and>
           flr_total_count listing
             = int (length (flr_files listing)) + int (length (flr_directories listing))"
proof -
  let ?names = "iterdir fs dir_path"
  let ?key = "\<lambda>e. lower rt (fi_name e)"
  have base: "prefix (base_dir sm) dir_path"
    using assms(1) by (rule get_safe_path_Some(2))
  then have rel: "relative_to dir_path (base_dir sm) = Some (drop (length (base_dir sm)) dir_path)"
    by (simp add: relative_to_def)
  have children: "\<forall>n \<in> set ?names. node_at fs (dir_path @ [n]) \<noteq> None"
    by (simp add: set_iterdir)
  from list_items_result [OF base assms(2) children, of rt "[]" "[]"] obtain fl dl where
    items: "list_items rt sm fs dir_path ?names ([], []) = Inr (fl, dl)"
    and fl: "map fi_name fl
               = filter (\<lambda>n. \<not> startswith_dot n \<and> \<not> is_dir fs (dir_path @ [n])) ?names"
    and dl: "map fi_name dl
               = filter (\<lambda>n. \<not> startswith_dot n \<and> is_dir fs (dir_path @ [n])) ?names"
    and kinds: "list_all (\<lambda>e. \<not> fi_is_directory e) fl" "list_all fi_is_directory dl"
    and paths: "list_all (\<lambda>e. fi_path e
                  = path_str (drop (length (base_dir sm)) (dir_path @ [fi_name e]))) (fl @ dl)"
    by auto
  define listing where "listing =
    \<lparr>flr_path = path_str (drop (length (base_dir sm)) dir_path),
     flr_files = sort_key ?key fl, flr_directories = sort_key ?key dl,
     flr_total_count = int (length (sort_key ?key fl)) + int (length (sort_key ?key dl))\<rparr>"
  have result: "list_directory rt sm fs relative_path = Inr listing"
    using assms items rel
    by (simp add: list_directory_def listing_def Let_def exists_path_iff is_dir_iff)
  have files: "flr_files listing = sort_key ?key fl"
    and dirs: "flr_directories listing = sort_key ?key dl"
    and total: "flr_total_count listing
      = int (length (flr_files listing)) + int (length (flr_directories listing))"
    by (simp_all add: listing_def)
  have "distinct (map fi_name fl)" "distinct (map fi_name dl)"
    unfolding fl dl by (simp_all add: distinct_iterdir)
  then have d: "distinct (map fi_name (flr_files listing))"
    "distinct (map fi_name (flr_directories listing))"
    unfolding files dirs by (simp_all only: distinct_map_sort_key)
  have "set (map fi_name (flr_files listing)) = set (map fi_name fl)"
    "set (map fi_name (flr_directories listing)) = set (map fi_name dl)"
    unfolding files dirs by simp_all
  then have s: "set (map fi_name (flr_files listing))
        = {n. \<not> startswith_dot n \<and> (\<exists>b. node_at fs (dir_path @ [n]) = Some (File b))}"
    "set (map fi_name (flr_directories listing))
        = {n. \<not> startswith_dot n \<and> node_at fs (dir_path @ [n]) = Some Dir}"
    unfolding fl dl using child_is_dir [OF assms(2)]
    by (auto simp: set_iterdir) (metis node.exhaust)
  have k: "list_all (\<lambda>e. \<not> fi_is_directory e) (flr_files listing)"
    "list_all fi_is_directory (flr_directories listing)"
    using kinds unfolding files dirs by (simp_all add: list_all_iff)
  have p: "list_all (\<lambda>e. fi_path e
                        = path_str (drop (length (base_dir sm)) (dir_path @ [fi_name e])))
             (flr_files listing @ flr_directories listing)"
    using paths unfolding files dirs by (simp add: list_all_iff)
  have o: "sorted (map ?key (flr_files listing))" "sorted (map ?key (flr_directories listing))"
    unfolding files dirs by (rule sorted_sort_key)+
  from result d s k p o total show ?thesis by blast
qed

theorem list_directory_listing_witness:
  "get_safe_path realpath data_sandbox (if [] = ([]::str) then [dot] else []) = Some [S ''data''] \<and>
   is_dir listing_sandbox [S ''data''] \<and>
   (\<exists>listing. list_directory example_runtime data_sandbox listing_sandbox [] = Inr listing \<and>
      map fi_name (flr_files listing) = [S ''a.txt'', S ''b.txt'', S ''B.txt''] \<and>
      map fi_name (flr_directories listing) = [S ''A''] \<and>
      flr_total_count listing = 4 \<and>
      sorted (map (\<lambda>e. lower example_runtime (fi_name e)) (flr_files listing)) \<and>
      list_all (\<lambda>e. \<not> fi_is_directory e) (flr_files listing) \<and>
      list_all fi_is_directory (flr_directories listing))"
proof -
  note unfold = isspace_def lstrip_def rstrip_def strip_def lstrip_chars_def parse_parts_def
    joinpath_def relative_to_def is_relative_to_def realpath_step_def realpath_def path_str_def
    node_at_def os_stat_def exists_path_def is_dir_def os_access_def read_bytes_def iterdir_def
    is_path_safe_def get_safe_path_def calculate_file_checksum_def get_mime_type_def
    data_sandbox_def node_size_def list_directory_def ascii_lower_def example_runtime_def
    listing_sandbox_def Let_def
  have safe: "get_safe_path realpath data_sandbox (if [] = ([]::str) then [dot] else [])
      = Some [S ''data'']"
    by (simp add: unfold)
  have dir: "is_dir listing_sandbox [S ''data'']"
    by (simp add: unfold listing_sandbox_def)
  have ev: "map_sum id
      (\<lambda>l. (map fi_name (flr_files l), map fi_name (flr_directories l), flr_total_count l))
      (list_directory example_runtime data_sandbox listing_sandbox [])
      = Inr ([S ''a.txt'', S ''b.txt'', S ''B.txt''], [S ''A''], 4)"
    by (simp add: unfold listing_sandbox_def)
  from list_directory_listing [OF safe dir, of example_runtime] obtain listing where
    l: "list_directory example_runtime data_sandbox listing_sandbox [] = Inr listing"
    and props: "sorted (map (\<lambda>e. lower example_runtime (fi_name e)) (flr_files listing))"
      "list_all (\<lambda>e. \<not> fi_is_directory e) (flr_files listing)"
      "list_all fi_is_directory (flr_directories listing)"
    by blast
  from ev l have names: "map fi_name (flr_files listing) = [S ''a.txt'', S ''b.txt'', S ''B.txt'']"
    "map fi_name (flr_directories listing) = [S ''A'']" "flr_total_count listing = 4"
    by simp_all
  show ?thesis
    using safe dir l names props by (intro conjI exI [of _ listing])
qed

section \<open>Batch responses\<close>

lemma batch_loop_invariant:
  "batch_loop rt sm cont fs ops (rs, es, n) = ((rs', es', n'), fs') \<Longrightarrow>
     \<exists>rs1 es1. rs' = rs @ rs1 \<and> es' = es @ es1 \<and>
        n' = n + int (length (filter re_success rs1)) \<and>
        map entry_key rs1 = take (length rs1) (map operation_key ops) \<and>
        length rs1 \<le> length ops \<and>
        map error_key es1 = map entry_key (filter (\<lambda>r. \<not> re_success r) rs1) \<and>
        (cont \<longrightarrow> length rs1 = length ops) \<and>
        (length rs1 < length ops \<longrightarrow> rs1 \<noteq> [] \<and> \<not> re_success (last rs1)) \<and>
        (\<not> cont \<longrightarrow> list_all re_success (butlast rs1))"
proof (induction ops arbitrary: fs rs es n)
  case Nil
  then show ?case by simp
next
  case (Cons operation rest)
  obtain out fs1 where run: "run_operation rt sm fs operation = (out, fs1)"
    by (cases "run_operation rt sm fs operation")
  show ?case
  proof (cases out)
    case (Inl e)
    define r where "r = \<lparr>re_path = op_path operation, re_type = op_type operation,
                   re_success = False, re_message = ExceptionText e\<rparr>"
    define er where "er = \<lparr>ee_path = op_path operation, ee_type = op_type operation,
                   ee_error = ExceptionText e\<rparr>"
    have keys: "entry_key r = operation_key operation" "error_key er = entry_key r"
      "\<not> re_success r"
      by (simp_all add: r_def er_def entry_key_def error_key_def operation_key_def)
    show ?thesis
    proof (cases cont)
      case False
      with Cons.prems run Inl have "rs' = rs @ [r]" "es' = es @ [er]" "n' = n"
        by (simp_all add: r_def er_def)
      then show ?thesis using False keys
        by (intro exI [of _ "[r]"] exI [of _ "[er]"])
           (simp add: keys)
    next
      case True
      with Cons.prems run Inl
      have "batch_loop rt sm cont fs1 rest (rs @ [r], es @ [er], n) = ((rs', es', n'), fs')"
        by (simp add: r_def er_def)
      from Cons.IH [OF this] obtain rs1 es1 where
        *: "rs' = (rs @ [r]) @ rs1" "es' = (es @ [er]) @ es1"
        "n' = n + int (length (filter re_success rs1))"
        "map entry_key rs1 = take (length rs1) (map operation_key rest)"
        "length rs1 \<le> length rest"
        "map error_key es1 = map entry_key (filter (\<lambda>r. \<not> re_success r) rs1)"
        "cont \<longrightarrow> length rs1 = length rest"
        "length rs1 < length rest \<longrightarrow> rs1 \<noteq> [] \<and> \<not> re_success (last rs1)"
        "\<not> cont \<longrightarrow> list_all re_success (butlast rs1)"
        by blast
      show ?thesis using * True keys
        by (intro exI [of _ "r # rs1"] exI [of _ "er # es1"])
           (simp add: keys)
    qed
  next
    case (Inr result)
    define r where "r = \<lparr>re_path = op_path operation, re_type = op_type operation,
                   re_success = res_success result,
                   re_message = (case res_message result of None \<Rightarrow> NoText
                                 | Some m \<Rightarrow> ServiceText m)\<rparr>"
    define er where "er = \<lparr>ee_path = op_path operation, ee_type = op_type operation,
                         ee_error = (case res_message result of None \<Rightarrow> UnknownError
                                     | Some m \<Rightarrow> ServiceText m)\<rparr>"
    have keys: "entry_key r = operation_key operation" "error_key er = entry_key r"
      by (simp_all add: r_def er_def entry_key_def error_key_def operation_key_def)
    show ?thesis
    proof (cases "res_success result")
      case True
      with Cons.prems run Inr
      have "batch_loop rt sm cont fs1 rest (rs @ [r], es, n + 1) = ((rs', es', n'), fs')"
        by (simp add: r_def)
      from Cons.IH [OF this] obtain rs1 es1 where
        *: "rs' = (rs @ [r]) @ rs1" "es' = es @ es1"
        "n' = n + 1 + int (length (filter re_success rs1))"
        "map entry_key rs1 = take (length rs1) (map operation_key rest)"
        "length rs1 \<le> length rest"
        "map error_key es1 = map entry_key (filter (\<lambda>r. \<not> re_success r) rs1)"
        "cont \<longrightarrow> length rs1 = length rest"
        "length rs1 < length rest \<longrightarrow> rs1 \<noteq> [] \<and> \<not> re_success (last rs1)"
        "\<not> cont \<longrightarrow> list_all re_success (butlast rs1)"
        by blast
      have succ: "re_success r" using True by (simp add: r_def)
      show ?thesis using * succ
        by (intro exI [of _ "r # rs1"] exI [of _ "es1"])
           (auto simp: keys)
    next
      case False
      have fail: "\<not> re_success r" using False by (simp add: r_def)
      show ?thesis
      proof (cases cont)
        case nc: False
        with Cons.prems run Inr False have "rs' = rs @ [r]" "es' = es @ [er]" "n' = n"
          by (simp_all add: r_def er_def)
        then show ?thesis using nc fail
          by (intro exI [of _ "[r]"] exI [of _ "[er]"])
             (simp add: keys)
      next
        case c: True
        with Cons.prems run Inr False
        have "batch_loop rt sm cont fs1 rest (rs @ [r], es @ [er], n) = ((rs', es', n'), fs')"
          by (simp add: r_def er_def)
        from Cons.IH [OF this] obtain rs1 es1 where
          *: "rs' = (rs @ [r]) @ rs1" "es' = (es @ [er]) @ es1"
          "n' = n + int (length (filter re_success rs1))"
          "map entry_key rs1 = take (length rs1) (map operation_key rest)"
          "length rs1 \<le> length rest"
          "map error_key es1 = map entry_key (filter (\<lambda>r. \<not> re_success r) rs1)"
          "cont \<longrightarrow> length rs1 = length rest"
          "length rs1 < length rest \<longrightarrow> rs1 \<noteq> [] \<and> \<not> re_success (last rs1)"
          "\<not> cont \<longrightarrow> list_all re_success (butlast rs1)"
          by blast
        show ?thesis using * c fail
          by (intro exI [of _ "r # rs1"] exI [of _ "er # es1"])
             (simp add: keys)
      qed
    qed
  qed
qed

lemma batch_operations_invariant:
  assumes "batch_operations rt sm fs request = (response, fs')"
  shows "total_operations response = int (length (operations request))"
    and "failed_operations response = total_operations response - successful_operations response"
    and "successful_operations response = int (length (filter re_success (results response)))"
    and "map entry_key (results response) =
           take (length (results response)) (map operation_key (operations request))"
    and "length (results response) \<le> length (operations request)"
    and "map error_key (errors response) =
           map entry_key (filter (\<lambda>r. \<not> re_success r) (results response))"
    and "continue_on_error request \<longrightarrow> length (results response) = length (operations request)"
    and "length (results response) < length (operations request) \<longrightarrow>
           results response \<noteq> [] \<and> \<not> re_success (last (results response))"
    and "\<not> continue_on_error request \<longrightarrow> list_all re_success (butlast (results response))"
proof -
  obtain rs es n where
    loop: "batch_loop rt sm (continue_on_error request) fs (operations request) ([], [], 0)
             = ((rs, es, n), fs')"
    and response: "response =
           \<lparr>total_operations = int (length (operations request)), successful_operations = n,
            failed_operations = int (length (operations request)) - n,
            results = rs, errors = es\<rparr>"
    using assms by (auto simp: batch_operations_def split: prod.splits)
  from batch_loop_invariant [OF loop] obtain rs1 es1 where
    *: "rs = [] @ rs1" "es = [] @ es1" "n = 0 + int (length (filter re_success rs1))"
       "map entry_key rs1 = take (length rs1) (map operation_key (operations request))"
       "length rs1 \<le> length (operations request)"
       "map error_key es1 = map entry_key (filter (\<lambda>r. \<not> re_success r) rs1)"
       "continue_on_error request \<longrightarrow> length rs1 = length (operations request)"
       "length rs1 < length (operations request) \<longrightarrow> rs1 \<noteq> [] \<and> \<not> re_success (last rs1)"
       "\<not> continue_on_error request \<longrightarrow> list_all re_success (butlast rs1)"
    by blast
  show "total_operations response = int (length (operations request))"
    and "failed_operations response = total_operations response - successful_operations response"
    and "successful_operations response = int (length (filter re_success (results response)))"
    and "map entry_key (results response) =
           take (length (results response)) (map operation_key (operations request))"
    and "length (results response) \<le> length (operations request)"
    and "map error_key (errors response) =
           map entry_key (filter (\<lambda>r. \<not> re_success r) (results response))"
    and "continue_on_error request \<longrightarrow> length (results response) = length (operations request)"
    and "length (results response) < length (operations request) \<longrightarrow>
           results response \<noteq> [] \<and> \<not> re_success (last (results response))"
    and "\<not> continue_on_error request \<longrightarrow> list_all re_success (butlast (results response))"
    using * by (simp_all add: response)
qed

lemma stopping_batch_eval:
  "batch_operations example_runtime data_sandbox empty_sandbox stopping_batch
     = (stopping_response, empty_sandbox)"
  by (simp add: isspace_def lstrip_def rstrip_def strip_def lstrip_chars_def parse_parts_def
      joinpath_def relative_to_def is_relative_to_def realpath_step_def realpath_def
      path_name_def path_suffix_def path_str_def utf8_encode_cp_def encode_def node_at_def
      os_stat_def exists_path_def is_file_def is_dir_def os_access_def parent_def os_mkdir_def
      write_bytes_def unlink_def rmtree_def is_path_safe_def get_safe_path_def
      validate_file_extension_def validate_file_size_def calculate_checksum_def
      can_delete_file_def data_sandbox_def validate_path_def failed_def succeeded_def
      create_file_def update_file_def delete_file_def create_directory_def or_default_def
      make_FileCreateRequest_def make_FileUpdateRequest_def make_DirectoryCreateRequest_def
      run_operation_def batch_operations_def ascii_lower_def example_runtime_def
      empty_sandbox_def no_data_def create_op_def delete_op_def mkdir_op_def stopping_batch_def
      stopping_response_def mkdir.simps AList.delete_eq Let_def stopping_batch_def stopping_response_def)





text \<open>
  C9. The failed count is the total minus the successes, whatever happened, where the
  successes are the successful entries of the results. It is therefore the number of
  recorded errors plus the number of operations that have no entry in the results:
  when the loop stops at a failure, every operation after it is counted as failed.
\<close>

theorem batch_failed_count:
  assumes "batch_operations rt sm fs request = (response, fs')"
  shows "failed_operations response = total_operations response - successful_operations response \<and>
         total_operations response = int (length (operations request)) \<and>
         successful_operations response = int (length (filter re_success (results response))) \<and>
         length (results response) \<le> length (operations request) \<and>
         failed_operations response =
           int (length (errors response)) +
           (int (length (operations request)) - int (length (results response)))"
proof -
  note inv = batch_operations_invariant [OF assms]
  have "length (errors response) = length (filter (\<lambda>r. \<not> re_success r) (results response))"
    using inv(6) by (metis length_map)
  moreover have "length (results response) =
      length (filter re_success (results response)) +
      length (filter (\<lambda>r. \<not> re_success r) (results response))"
    by (simp add: sum_length_filter_compl)
  ultimately show ?thesis using inv(1,2,3,5) by simp
qed

theorem batch_failed_count_witness:
  "batch_operations example_runtime data_sandbox empty_sandbox stopping_batch
     = (stopping_response, empty_sandbox) \<and>
   continue_on_error stopping_batch = False \<and>
   length (operations stopping_batch) = 3 \<and>
   length (results stopping_response) = 1 \<and>
   length (errors stopping_response) = 1 \<and>
   failed_operations stopping_response = 3 \<and>
   failed_operations stopping_response
     = total_operations stopping_response - successful_operations stopping_response"
  using batch_failed_count [OF stopping_batch_eval] stopping_batch_eval
  by (simp add: stopping_response_def stopping_batch_def)

section \<open>The watcher's filter\<close>

lemma should_process_dot_root:
  assumes "list_ex startswith_dot base"
  shows "should_process_event resolve base event \<noteq> Some True"
proof -
  have "list_ex startswith_dot p" if "prefix base p" for p
    using that assms by (auto simp: list_ex_iff prefix_def)
  then show ?thesis
    by (auto simp: should_process_event_def relative_to_def split: option.splits)
qed

text \<open>
  C10. The filter accepts an event exactly when the resolved path of its source lies
  under the sandbox root and no part of that whole absolute path begins with a dot,
  the parts of the root and of its ancestors included. So when a part of the root
  begins with a dot, no handler notifies anything: the queues of the subscribers stay
  as they are, for every event of every kind.
\<close>

theorem should_process_event_dot_root:
  "(should_process_event resolve base event = Some True \<longleftrightarrow>
      (\<exists>p. resolve (parse_parts (src_path event)) = Some p \<and> prefix base p \<and>
           \<not> list_ex startswith_dot p)) \<and>
   (list_ex startswith_dot base \<longrightarrow>
      dispatch resolve base fs watch_subscribers kind event = watch_subscribers)"
proof -
  have accept: "should_process_event resolve base event = Some True \<longleftrightarrow>
      (\<exists>p. resolve (parse_parts (src_path event)) = Some p \<and> prefix base p \<and>
           \<not> list_ex startswith_dot p)"
    by (auto simp: should_process_event_def relative_to_def split: option.splits)
  have "dispatch resolve base fs watch_subscribers kind event = watch_subscribers"
    if "list_ex startswith_dot base"
    using should_process_dot_root [OF that, of resolve event]
    by (cases kind)
       (auto simp: dispatch_def on_created_def on_modified_def on_deleted_def on_moved_def
             split: option.splits)
  with accept show ?thesis by blast
qed

theorem should_process_event_dot_root_witness:
  "list_ex startswith_dot [S ''home'', S ''.cache'', S ''data''] \<and>
   should_process_event realpath [S ''home'', S ''.cache'', S ''data'']
     \<lparr>src_path = S ''/home/.cache/data/a.txt'', dest_path = [], is_directory = False\<rparr>
     = Some False \<and>
   dispatch realpath [S ''home'', S ''.cache'', S ''data''] empty_sandbox [[]] Created
     \<lparr>src_path = S ''/home/.cache/data/a.txt'', dest_path = [], is_directory = False\<rparr>
     = [[]] \<and>
   should_process_event realpath [S ''data'']
     \<lparr>src_path = S ''/data/a.txt'', dest_path = [], is_directory = False\<rparr> = Some True"
proof -
  note unfold = parse_parts_def relative_to_def realpath_step_def realpath_def node_at_def
    os_stat_def node_size_def should_process_event_def getsize_def on_created_def
    on_modified_def on_deleted_def on_moved_def notify_watch_event_def dispatch_def
    empty_sandbox_def Let_def
  have h: "list_ex startswith_dot [S ''home'', S ''.cache'', S ''data'']" by simp
  have a: "should_process_event realpath [S ''home'', S ''.cache'', S ''data'']
     \<lparr>src_path = S ''/home/.cache/data/a.txt'', dest_path = [], is_directory = False\<rparr>
     = Some False"
    by (simp add: unfold)
  have b: "should_process_event realpath [S ''data'']
     \<lparr>src_path = S ''/data/a.txt'', dest_path = [], is_directory = False\<rparr> = Some True"
    by (simp add: unfold)
  show ?thesis
    using h a b
      should_process_event_dot_root [of realpath "[S ''home'', S ''.cache'', S ''data'']"
        "\<lparr>src_path = S ''/home/.cache/data/a.txt'', dest_path = [], is_directory = False\<rparr>"
        empty_sandbox "[[]]" Created]
    by blast
qed

end
